theory Spec2Isabelle
  imports Complex_Main
begin

section \<open>Python values used by the service\<close>

text \<open>
  Python ints are integers and \<open>str\<close> is \<open>string\<close>. An optional value (\<open>None\<close> or a
  value) is an \<open>option\<close>. A raised exception is the left summand of a result, a returned
  value the right one. Durations, log-probabilities and clock readings are taken as reals.
  The start and the end of a segment are floats in full, \<open>pyfloat\<close>: a finite value, an
  infinity or NaN. The validator of the segment compares them, and every comparison with NaN
  is false.
\<close>

datatype pyfloat = Fin real | PosInf | NegInf | NaN

text \<open>\<open>x <= y\<close> and \<open>x < y\<close> on floats.\<close>

fun float_le :: "pyfloat \<Rightarrow> pyfloat \<Rightarrow> bool" where
  "float_le NaN y = False"
| "float_le x NaN = False"
| "float_le NegInf y = True"
| "float_le x PosInf = True"
| "float_le (Fin a) (Fin b) = (a \<le> b)"
| "float_le x y = False"

definition float_less :: "pyfloat \<Rightarrow> pyfloat \<Rightarrow> bool" where
  "float_less x y = (float_le x y \<and> \<not> float_le y x)"

text \<open>\<open>round(x, n)\<close>: the nearest multiple of \<open>10^-n\<close>, a tie going to the even one.\<close>

definition py_round :: "real \<Rightarrow> nat \<Rightarrow> real" where
  "py_round x n =
     (let y = x * 10 ^ n; f = \<lfloor>y\<rfloor>; d = y - of_int f
      in of_int (if d < 1 / 2 then f else if 1 / 2 < d then f + 1
                 else if even f then f else f + 1) / 10 ^ n)"

text \<open>\<open>str.strip()\<close> on the whitespace characters of ASCII.\<close>

definition is_space :: "char \<Rightarrow> bool" where
  "is_space c = (c \<in> set [CHR '' '', CHR 0x09, CHR 0x0A, CHR 0x0B, CHR 0x0C, CHR 0x0D,
                           CHR 0x1C, CHR 0x1D, CHR 0x1E, CHR 0x1F])"

definition strip :: "string \<Rightarrow> string" where
  "strip s = rev (dropWhile is_space (rev (dropWhile is_space s)))"

text \<open>Truth value of an optional string, integer or list in a condition (\<open>if x:\<close>).\<close>

definition truthy_str :: "string option \<Rightarrow> bool" where
  "truthy_str v = (case v of None \<Rightarrow> False | Some x \<Rightarrow> x \<noteq> [])"

definition truthy_int :: "int option \<Rightarrow> bool" where
  "truthy_int v = (case v of None \<Rightarrow> False | Some n \<Rightarrow> n \<noteq> 0)"

definition truthy_list :: "string list option \<Rightarrow> bool" where
  "truthy_list v = (case v of None \<Rightarrow> False | Some xs \<Rightarrow> xs \<noteq> [])"

section \<open>exceptions.py\<close>

text \<open>
  One constructor for each exception class, with the arguments of its \<open>__init__\<close> (the message
  first). \<open>ValidationError\<close> is the error pydantic raises when a model is constructed from
  invalid data (the model's name and the messages of the failed fields); \<open>PyException\<close> is
  any other exception, kept as its \<open>str()\<close>.
\<close>

datatype exn =
    InvalidAudioFormat string "string option" "string list option"
  | FileTooLarge string "int option" "int option"
  | ModelNotLoaded string "string option"
  | TranscriptionFailed string "string option" "string option"
  | ModelLoadFailed string "string option" "string option"
  | AudioProcessingError string "string option" "string option"
  | FileSystemError string "string option" "string option" "string option"
  | ValidationError string "string list"
  | PyException string

text \<open>The attribute \<open>error_code\<close> that each class passes to \<open>WhisperrrException\<close>.\<close>

fun error_code :: "exn \<Rightarrow> string option" where
  "error_code (InvalidAudioFormat _ _ _) = Some ''INVALID_AUDIO_FORMAT''"
| "error_code (FileTooLarge _ _ _) = Some ''FILE_TOO_LARGE''"
| "error_code (ModelNotLoaded _ _) = Some ''MODEL_NOT_LOADED''"
| "error_code (TranscriptionFailed _ _ _) = Some ''TRANSCRIPTION_FAILED''"
| "error_code (ModelLoadFailed _ _ _) = Some ''MODEL_LOAD_FAILED''"
| "error_code (AudioProcessingError _ _ _) = Some ''AUDIO_PROCESSING_ERROR''"
| "error_code (FileSystemError _ _ _ _) = Some ''FILE_SYSTEM_ERROR''"
| "error_code (ValidationError _ _) = None"
| "error_code (PyException _) = None"

text \<open>
  \<open>str(e)\<close>. A \<open>WhisperrrException\<close> passes its message to \<open>Exception.__init__\<close>. For a
  pydantic error the text is pydantic's rendering, modelled as a header line with the model's
  name followed by the messages.
\<close>

fun str_exn :: "exn \<Rightarrow> string" where
  "str_exn (InvalidAudioFormat m _ _) = m"
| "str_exn (FileTooLarge m _ _) = m"
| "str_exn (ModelNotLoaded m _) = m"
| "str_exn (TranscriptionFailed m _ _) = m"
| "str_exn (ModelLoadFailed m _ _) = m"
| "str_exn (AudioProcessingError m _ _) = m"
| "str_exn (FileSystemError m _ _ _) = m"
| "str_exn (ValidationError name msgs) =
     ''validation error for '' @ name @ concat (map (\<lambda>m. CHR 0x0A # m) msgs)"
| "str_exn (PyException m) = m"

text \<open>The dictionary \<open>details\<close>, in insertion order.\<close>

datatype detail = DStr string | DInt int | DReal real | DList "string list"

definition str_entry :: "string \<Rightarrow> string option \<Rightarrow> (string \<times> detail) list" where
  "str_entry k v = (if truthy_str v then [(k, DStr (the v))] else [])"

definition size_entries :: "string \<Rightarrow> string \<Rightarrow> int option \<Rightarrow> (string \<times> detail) list" where
  "size_entries kb kmb v =
     (if truthy_int v
      then [(kb, DInt (the v)), (kmb, DReal (py_round (real_of_int (the v) / (1024 * 1024)) 2))]
      else [])"

fun details :: "exn \<Rightarrow> (string \<times> detail) list" where
  "details (InvalidAudioFormat _ file_format supported) =
     str_entry ''provided_format'' file_format
     @ (if truthy_list supported then [(''supported_formats'', DList (the supported))] else [])"
| "details (FileTooLarge _ file_size max_size) =
     size_entries ''file_size_bytes'' ''file_size_mb'' file_size
     @ size_entries ''max_size_bytes'' ''max_size_mb'' max_size"
| "details (ModelNotLoaded _ model_size) = str_entry ''requested_model'' model_size"
| "details (TranscriptionFailed _ original_error file_path) =
     str_entry ''original_error'' original_error @ str_entry ''file_path'' file_path"
| "details (ModelLoadFailed _ model_size original_error) =
     str_entry ''model_size'' model_size @ str_entry ''original_error'' original_error"
| "details (AudioProcessingError _ original_error processing_step) =
     str_entry ''original_error'' original_error @ str_entry ''processing_step'' processing_step"
| "details (FileSystemError _ operation file_path original_error) =
     str_entry ''operation'' operation @ str_entry ''file_path'' file_path
     @ str_entry ''original_error'' original_error"
| "details (ValidationError _ _) = []"
| "details (PyException _) = []"

section \<open>models.py\<close>

record TranscriptionSegment =
  start_time :: pyfloat
  end_time :: pyfloat
  segment_text :: string
  confidence :: "real option"

text \<open>
  The validator of \<open>end_time\<close>. The field \<open>start_time\<close> is declared first and is a float
  here, so it is always among the values already validated. The test is the source's
  \<open>v <= values["start_time"]\<close>.
\<close>

definition validate_end_time :: "pyfloat \<Rightarrow> pyfloat \<Rightarrow> string + pyfloat" where
  "validate_end_time v start =
     (if float_le v start then Inl ''End time must be after start time'' else Inr v)"

text \<open>The bounds \<open>ge=0.0, le=1.0\<close> of an optional field.\<close>

definition unit_interval_errors :: "real option \<Rightarrow> string list" where
  "unit_interval_errors c =
     (case c of None \<Rightarrow> []
      | Some x \<Rightarrow>
          (if x < 0 then [''Input should be greater than or equal to 0''] else [])
          @ (if 1 < x then [''Input should be less than or equal to 1''] else []))"

text \<open>
  Constructing a \<open>TranscriptionSegment\<close>: every field is validated, the failures are
  collected, and one \<open>ValidationError\<close> is raised if there is any.
\<close>

definition new_TranscriptionSegment ::
  "pyfloat \<Rightarrow> pyfloat \<Rightarrow> string \<Rightarrow> real option \<Rightarrow> exn + TranscriptionSegment" where
  "new_TranscriptionSegment st en tx conf =
     (let errs = (case validate_end_time en st of Inl m \<Rightarrow> [m] | Inr _ \<Rightarrow> [])
                 @ unit_interval_errors conf
      in if errs = []
         then Inr \<lparr>start_time = st, end_time = en, segment_text = tx, confidence = conf\<rparr>
         else Inl (ValidationError ''TranscriptionSegment'' errs))"

record TranscriptionResponse =
  response_text :: string
  language :: "string option"
  duration :: real
  segments :: "TranscriptionSegment list"
  confidence_score :: "real option"
  model_used :: string
  processing_time :: real

text \<open>
  Constructing a \<open>TranscriptionResponse\<close>. \<open>model_used\<close> is a required \<open>str\<close>, so
  \<open>None\<close> is rejected; the segments passed are already validated objects.
\<close>

definition new_TranscriptionResponse ::
  "string \<Rightarrow> string option \<Rightarrow> real \<Rightarrow> TranscriptionSegment list \<Rightarrow> real option \<Rightarrow>
   string option \<Rightarrow> real \<Rightarrow> exn + TranscriptionResponse" where
  "new_TranscriptionResponse tx lang dur segs conf used ptime =
     (let errs = unit_interval_errors conf
                 @ (case used of None \<Rightarrow> [''Input should be a valid string''] | Some _ \<Rightarrow> [])
      in if errs = []
         then Inr \<lparr>response_text = tx, language = lang, duration = dur, segments = segs,
                   confidence_score = conf, model_used = the used, processing_time = ptime\<rparr>
         else Inl (ValidationError ''TranscriptionResponse'' errs))"

record ModelInfoResponse =
  info_model_size :: string
  info_memory_usage_mb :: real
  info_load_time_seconds :: real
  supported_languages :: "string list"
  is_loaded :: bool
  last_loaded :: "real option"

section \<open>The result of the inference engine\<close>

text \<open>
  What \<open>model.transcribe\<close> returns is a dictionary; each key that the service reads may be
  missing. A raw segment is a dictionary too.
\<close>

record raw_segment =
  seg_start :: "pyfloat option"
  seg_end :: "pyfloat option"
  seg_text :: "string option"
  avg_logprob :: "real option"

record whisper_result =
  result_segments :: "raw_segment list option"
  result_text :: "string option"
  result_language :: "string option"

text \<open>\<open>d.get(key, default)\<close>.\<close>

definition get_or :: "'a option \<Rightarrow> 'a \<Rightarrow> 'a" where
  "get_or v d = (case v of None \<Rightarrow> d | Some x \<Rightarrow> x)"

section \<open>WhisperService._create_transcription_response\<close>

text \<open>The loop over the raw segments; the first segment that is rejected ends it.\<close>

fun extract_segments :: "raw_segment list \<Rightarrow> exn + TranscriptionSegment list" where
  "extract_segments [] = Inr []"
| "extract_segments (segment # rest) =
     (case new_TranscriptionSegment (get_or (seg_start segment) (Fin 0))
             (get_or (seg_end segment) (Fin 0)) (strip (get_or (seg_text segment) [])) None of
        Inl e \<Rightarrow> Inl e
      | Inr seg \<Rightarrow>
          (case extract_segments rest of Inl e \<Rightarrow> Inl e | Inr segs \<Rightarrow> Inr (seg # segs)))"

definition overall_confidence :: "whisper_result \<Rightarrow> real option" where
  "overall_confidence whisper_result =
     (case result_segments whisper_result of
        None \<Rightarrow> None
      | Some segs \<Rightarrow>
          if segs = [] then None
          else (let confidences = map (\<lambda>seg. get_or (avg_logprob seg) 0)
                                      (filter (\<lambda>seg. avg_logprob seg \<noteq> None) segs)
                in if confidences = [] then None
                   else Some (max 0 (min 1 (sum_list confidences / real (length confidences) + 1)))))"

text \<open>
  \<open>current_size\<close> is \<open>self._model_size\<close>, \<open>file_duration\<close> is \<open>file_info["duration"]\<close>.
\<close>

definition create_transcription_response ::
  "string option \<Rightarrow> whisper_result \<Rightarrow> real \<Rightarrow> real \<Rightarrow> exn + TranscriptionResponse" where
  "create_transcription_response current_size whisper_result file_duration ptime =
     (case extract_segments (get_or (result_segments whisper_result) []) of
        Inl e \<Rightarrow> Inl e
      | Inr segs \<Rightarrow>
          new_TranscriptionResponse (strip (get_or (result_text whisper_result) []))
            (result_language whisper_result) file_duration segs
            (overall_confidence whisper_result) current_size (py_round ptime 3))"

section \<open>config.py\<close>

record settings =
  cfg_model_size :: string
  max_file_size_mb :: int
  max_concurrent_transcriptions :: int
  cleanup_temp_files :: bool
  supported_formats :: "string list"
  available_model_sizes :: "string list"
  upload_dir :: string

text \<open>The values of the class body, used when the environment overrides nothing.\<close>

definition default_settings :: settings where
  "default_settings =
     \<lparr>cfg_model_size = ''base'', max_file_size_mb = 25, max_concurrent_transcriptions = 3,
      cleanup_temp_files = True,
      supported_formats = [''mp3'', ''wav'', ''m4a'', ''flac'', ''ogg'', ''wma''],
      available_model_sizes = [''tiny'', ''base'', ''small'', ''medium'', ''large''],
      upload_dir = ''/tmp/whisperrr_uploads''\<rparr>"

definition max_file_size_bytes :: "settings \<Rightarrow> int" where
  "max_file_size_bytes st = max_file_size_mb st * 1024 * 1024"

definition supported_formats_set :: "settings \<Rightarrow> string set" where
  "supported_formats_set st = set (supported_formats st)"

section \<open>The collaborators outside the repository\<close>

text \<open>
  The service reads the file system, the clock and the process, and calls librosa, soundfile,
  torch and whisper. What these answer during one operation is a record of functions; a call
  that raises answers \<open>Inl\<close> with the \<open>str()\<close> of the exception. The model object that
  \<open>whisper.load_model\<close> returns is opaque: a handle.
\<close>

type_synonym handle = nat

record world =
  cfg :: settings
  path_exists :: "string \<Rightarrow> bool"
  path_getsize :: "string \<Rightarrow> string + int"
  path_suffix :: "string \<Rightarrow> string"
  read_header :: "string \<Rightarrow> string + string"
  librosa_info :: "string \<Rightarrow> string + real \<times> int"
  librosa_load :: "string \<Rightarrow> string + unit"
  uuid4 :: string
  makedirs :: "string \<Rightarrow> string + unit"
  sf_write :: "string \<Rightarrow> string + unit"
  memory_usage :: real
  cuda_available :: bool
  whisper_load_model :: "string \<Rightarrow> string \<Rightarrow> string + handle"
  whisper_transcribe ::
    "handle \<Rightarrow> string \<Rightarrow> string option \<Rightarrow> real \<Rightarrow> string \<Rightarrow> string + whisper_result"
  load_started :: real
  load_stored :: real
  load_finished :: real
  transcription_started :: real
  transcription_finished :: real
  time_now :: real

section \<open>utils.py\<close>

text \<open>\<open>str.lower()\<close> on the letters of ASCII.\<close>

definition lower_char :: "char \<Rightarrow> char" where
  "lower_char c =
     (case map_of (zip ''ABCDEFGHIJKLMNOPQRSTUVWXYZ'' ''abcdefghijklmnopqrstuvwxyz'') c of
        None \<Rightarrow> c
      | Some l \<Rightarrow> l)"

definition get_file_extension :: "world \<Rightarrow> string \<Rightarrow> string" where
  "get_file_extension w filename =
     dropWhile (\<lambda>c. c = CHR ''.'') (map lower_char (path_suffix w filename))"

definition validate_file_format :: "world \<Rightarrow> string \<Rightarrow> bool" where
  "validate_file_format w filename =
     (get_file_extension w filename \<in> supported_formats_set (cfg w))"

definition validate_file_size :: "world \<Rightarrow> int \<Rightarrow> bool" where
  "validate_file_size w file_size = (file_size \<le> max_file_size_bytes (cfg w))"

text \<open>\<open>b.startswith(p)\<close> and the slice \<open>b[i:j]\<close> of a byte string.\<close>

definition startswith :: "string \<Rightarrow> string \<Rightarrow> bool" where
  "startswith b p = (take (length p) b = p)"

definition slice :: "string \<Rightarrow> nat \<Rightarrow> nat \<Rightarrow> string" where
  "slice b i j = drop i (take j b)"

definition detect_audio_format :: "world \<Rightarrow> string \<Rightarrow> string option" where
  "detect_audio_format w file_path =
     (case read_header w file_path of
        Inl _ \<Rightarrow> Some (get_file_extension w file_path)
      | Inr bytes \<Rightarrow>
          (let header = take 12 bytes
           in if startswith header ''ID3'' \<or> slice header 1 4 = ''ID3'' then Some ''mp3''
              else if startswith header ''RIFF'' \<and> slice header 8 12 = ''WAVE'' then Some ''wav''
              else if startswith header ''OggS'' then Some ''ogg''
              else if startswith header ''fLaC'' then Some ''flac''
              else if startswith header
                        ([CHR 0x00, CHR 0x00, CHR 0x00, CHR 0x20] @ ''ftypM4A'') then Some ''m4a''
              else if startswith header [CHR 0x30, CHR 0x26, CHR 0xB2, CHR 0x75] then Some ''wma''
              else Some (get_file_extension w file_path)))"

definition create_temp_file :: "world \<Rightarrow> string option \<Rightarrow> exn + string \<times> string" where
  "create_temp_file w suffix =
     (let filename = (if truthy_str suffix then ''whisperrr_'' @ uuid4 w @ ''.'' @ the suffix
                      else ''whisperrr_'' @ uuid4 w);
          file_path = upload_dir (cfg w) @ ''/'' @ filename
      in case makedirs w (upload_dir (cfg w)) of
           Inl e \<Rightarrow> Inl (FileSystemError ''Failed to create temporary file''
                          (Some ''create_temp_file'') None (Some e))
         | Inr _ \<Rightarrow> Inr (file_path, filename))"

record audio_info =
  info_duration :: real
  info_sample_rate :: int
  info_file_size :: int
  info_file_size_mb :: real

definition get_audio_info :: "world \<Rightarrow> string \<Rightarrow> exn + audio_info" where
  "get_audio_info w file_path =
     (case librosa_info w file_path of
        Inl e \<Rightarrow> Inl (AudioProcessingError ''Failed to get audio information'' (Some e)
                       (Some ''get_audio_info''))
      | Inr (d, sr) \<Rightarrow>
          (case path_getsize w file_path of
             Inl e \<Rightarrow> Inl (AudioProcessingError ''Failed to get audio information'' (Some e)
                            (Some ''get_audio_info''))
           | Inr file_size \<Rightarrow>
               Inr \<lparr>info_duration = d, info_sample_rate = sr, info_file_size = file_size,
                    info_file_size_mb = py_round (real_of_int file_size / (1024 * 1024)) 2\<rparr>))"

text \<open>
  \<open>preprocess_audio\<close>: every exception of the body, also one that is already an
  \<open>AudioProcessingError\<close> or a \<open>FileSystemError\<close>, is raised again as an
  \<open>AudioProcessingError\<close> with the \<open>str()\<close> of the first. \<open>librosa_load\<close> stands for
  loading, resampling and normalising.
\<close>

definition preprocess_body :: "world \<Rightarrow> string \<Rightarrow> exn + string" where
  "preprocess_body w file_path =
     (case get_audio_info w file_path of
        Inl e \<Rightarrow> Inl e
      | Inr _ \<Rightarrow>
          (case librosa_load w file_path of
             Inl e \<Rightarrow> Inl (PyException e)
           | Inr _ \<Rightarrow>
               (case create_temp_file w (Some ''wav'') of
                  Inl e \<Rightarrow> Inl e
                | Inr (output_path, _) \<Rightarrow>
                    (case sf_write w output_path of
                       Inl e \<Rightarrow> Inl (PyException e)
                     | Inr _ \<Rightarrow> Inr output_path))))"

definition preprocess_audio :: "world \<Rightarrow> string \<Rightarrow> exn + string" where
  "preprocess_audio w file_path =
     (case preprocess_body w file_path of
        Inl e \<Rightarrow> Inl (AudioProcessingError ''Failed to preprocess audio'' (Some (str_exn e))
                       (Some ''preprocess_audio''))
      | Inr output_path \<Rightarrow> Inr output_path)"

record file_info =
  valid :: bool
  file_format :: "string option"
  file_size :: int
  file_size_mb :: real
  file_duration :: real
  sample_rate :: int

text \<open>The body of the \<open>try\<close> of \<open>validate_audio_file\<close>.\<close>

definition validate_body :: "world \<Rightarrow> string \<Rightarrow> exn + file_info" where
  "validate_body w file_path =
     (if \<not> path_exists w file_path
      then Inl (FileSystemError ''File does not exist'' None (Some file_path) None)
      else (case path_getsize w file_path of
              Inl e \<Rightarrow> Inl (PyException e)
            | Inr fsize \<Rightarrow>
                (if \<not> validate_file_size w fsize
                 then Inl (FileTooLarge ''File size exceeds maximum allowed size'' (Some fsize)
                            (Some (max_file_size_bytes (cfg w))))
                 else (let detected_format = detect_audio_format w file_path
                       in (if \<not> validate_file_format w file_path
                           then Inl (InvalidAudioFormat ''Invalid or unsupported audio format''
                                      detected_format (Some (supported_formats (cfg w))))
                           else (case get_audio_info w file_path of
                                   Inl e \<Rightarrow> Inl e
                                 | Inr info \<Rightarrow>
                                     Inr \<lparr>valid = True, file_format = detected_format,
                                          file_size = fsize,
                                          file_size_mb =
                                            py_round (real_of_int fsize / (1024 * 1024)) 2,
                                          file_duration = info_duration info,
                                          sample_rate = info_sample_rate info\<rparr>))))))"

text \<open>
  The handlers: the three classes named in the first \<open>except\<close> are raised again as they
  are, everything else becomes an \<open>AudioProcessingError\<close>.
\<close>

definition validate_audio_file :: "world \<Rightarrow> string \<Rightarrow> exn + file_info" where
  "validate_audio_file w file_path =
     (case validate_body w file_path of
        Inr info \<Rightarrow> Inr info
      | Inl (InvalidAudioFormat m a b) \<Rightarrow> Inl (InvalidAudioFormat m a b)
      | Inl (FileTooLarge m a b) \<Rightarrow> Inl (FileTooLarge m a b)
      | Inl (FileSystemError m a b c) \<Rightarrow> Inl (FileSystemError m a b c)
      | Inl e \<Rightarrow> Inl (AudioProcessingError ''Audio file validation failed'' (Some (str_exn e))
                     (Some ''validate_audio_file'')))"

section \<open>whisper_service.py: the state of the service\<close>

text \<open>
  The thread pool is an object of the standard library. Of its state the service depends on
  one bit: after \<open>shutdown\<close> every submission raises a \<open>RuntimeError\<close>.
\<close>

record executor =
  max_workers :: int
  is_shutdown :: bool

definition submit :: "executor \<Rightarrow> string + unit" where
  "submit ex = (if is_shutdown ex then Inl ''cannot schedule new futures after shutdown''
                else Inr ())"

text \<open>The attributes that \<open>__init__\<close> sets (without the leading underscore).\<close>

record service =
  model :: "handle option"
  model_size :: "string option"
  model_load_time :: "real option"
  is_loading :: bool
  active_transcriptions :: int
  service_start_time :: real
  executor :: executor

definition WhisperService_init :: "world \<Rightarrow> service" where
  "WhisperService_init w =
     \<lparr>model = None, model_size = None, model_load_time = None, is_loading = False,
      active_transcriptions = 0, service_start_time = time_now w,
      executor = \<lparr>max_workers = max_concurrent_transcriptions (cfg w), is_shutdown = False\<rparr>\<rparr>"

definition service_supported_languages :: "string list" where
  "service_supported_languages =
     [''en'', ''zh'', ''de'', ''es'', ''ru'', ''ko'', ''fr'', ''ja'', ''pt'', ''tr'',
      ''pl'', ''ca'', ''nl'', ''ar'', ''sv'', ''it'', ''id'', ''hi'', ''fi'', ''vi'',
      ''he'', ''uk'', ''el'', ''ms'', ''cs'', ''ro'', ''da'', ''hu'', ''ta'', ''no'',
      ''th'', ''ur'', ''hr'', ''bg'', ''lt'', ''la'', ''mi'', ''ml'', ''cy'', ''sk'',
      ''te'', ''fa'', ''lv'', ''bn'', ''sr'', ''az'', ''sl'', ''kn'', ''et'', ''mk'',
      ''br'', ''eu'', ''is'', ''hy'', ''ne'', ''mn'', ''bs'', ''kk'', ''sq'', ''sw'',
      ''gl'', ''mr'', ''pa'', ''si'', ''km'', ''sn'', ''yo'', ''so'', ''af'', ''oc'',
      ''ka'', ''be'', ''tg'', ''sd'', ''gu'', ''am'', ''yi'', ''lo'', ''uz'', ''fo'',
      ''ht'', ''ps'', ''tk'', ''nn'', ''mt'', ''sa'', ''lb'', ''my'', ''bo'', ''tl'',
      ''mg'', ''as'', ''tt'', ''haw'', ''ln'', ''ha'', ''ba'', ''jw'', ''su'']"

section \<open>WhisperService.load_model\<close>

record load_report =
  success :: bool
  report_model_size :: string
  load_time_seconds :: real
  memory_usage_mb :: real
  message :: string

definition requested_size :: "world \<Rightarrow> string option \<Rightarrow> string" where
  "requested_size w arg = (case arg of None \<Rightarrow> cfg_model_size (cfg w) | Some m \<Rightarrow> m)"

definition load_model_sync :: "world \<Rightarrow> string \<Rightarrow> string + handle" where
  "load_model_sync w m = whisper_load_model w m (if cuda_available w then ''cuda'' else ''cpu'')"

text \<open>
  \<open>load_model\<close> suspends once, at the \<open>await\<close> of the work handed to the thread pool;
  other coroutines run meanwhile. \<open>load_model_begin\<close> is the part before the suspension:
  it answers \<open>Some\<close> when the call is over already (the model is loaded, a load is in
  progress, or the pool refuses the work) and \<open>None\<close> when the load is now in progress.
  \<open>load_model_finish\<close> is the part after it.
\<close>

definition load_model_begin ::
  "world \<Rightarrow> string option \<Rightarrow> service \<Rightarrow> (exn + load_report) option \<times> service" where
  "load_model_begin w arg s =
     (let m = requested_size w arg
      in if model s \<noteq> None \<and> model_size s = Some m \<and> \<not> is_loading s
         then (Some (Inr \<lparr>success = True, report_model_size = m, load_time_seconds = 0,
                          memory_usage_mb = memory_usage w,
                          message = ''Model '' @ m @ '' already loaded''\<rparr>), s)
         else if is_loading s
         then (Some (Inl (ModelLoadFailed ''Model is already being loaded'' (Some m) None)), s)
         else (case submit (executor s) of
                 Inl e \<Rightarrow>
                   (Some (Inl (ModelLoadFailed (''Failed to load model '' @ m) (Some m) (Some e))),
                    s\<lparr>is_loading := False\<rparr>)
               | Inr _ \<Rightarrow> (None, s\<lparr>is_loading := True\<rparr>)))"

definition load_model_finish ::
  "world \<Rightarrow> string \<Rightarrow> service \<Rightarrow> (exn + load_report) \<times> service" where
  "load_model_finish w m s =
     (case load_model_sync w m of
        Inl e \<Rightarrow>
          (Inl (ModelLoadFailed (''Failed to load model '' @ m) (Some m) (Some e)),
           s\<lparr>is_loading := False\<rparr>)
      | Inr h \<Rightarrow>
          (Inr \<lparr>success = True, report_model_size = m,
                load_time_seconds = py_round (load_finished w - load_started w) 3,
                memory_usage_mb = memory_usage w,
                message = ''Model '' @ m @ '' loaded successfully''\<rparr>,
           s\<lparr>model := Some h, model_size := Some m, model_load_time := Some (load_stored w),
             is_loading := False\<rparr>))"

text \<open>The whole call, when nothing else runs during the suspension.\<close>

definition load_model ::
  "world \<Rightarrow> string option \<Rightarrow> service \<Rightarrow> (exn + load_report) \<times> service" where
  "load_model w arg s =
     (case load_model_begin w arg s of
        (Some r, s') \<Rightarrow> (r, s')
      | (None, s') \<Rightarrow> load_model_finish w (requested_size w arg) s')"

section \<open>WhisperService.transcribe_audio\<close>

definition transcribe_sync ::
  "world \<Rightarrow> service \<Rightarrow> string \<Rightarrow> string option \<Rightarrow> real \<Rightarrow> string \<Rightarrow> exn + whisper_result" where
  "transcribe_sync w s file_path lang temperature task =
     (case model s of
        None \<Rightarrow> Inl (PyException (CHR 0x27 # ''NoneType'' @ CHR 0x27 # '' object has no attribute ''
                                   @ CHR 0x27 # ''transcribe'' @ [CHR 0x27]))
      | Some h \<Rightarrow>
          (case whisper_transcribe w h file_path (if truthy_str lang then lang else None)
                  temperature task of
             Inl e \<Rightarrow> Inl (PyException e)
           | Inr r \<Rightarrow> Inr r))"

text \<open>
  The body of the outer \<open>try\<close>, run in the state \<open>s\<close> in which the counter is already
  incremented. It changes no attribute of the service. The inner \<open>finally\<close> removes the
  temporary file; \<open>cleanup_temp_file\<close> catches every exception, so it changes neither the
  result nor the service.
\<close>

definition transcription_body ::
  "world \<Rightarrow> service \<Rightarrow> string \<Rightarrow> string option \<Rightarrow> real \<Rightarrow> string \<Rightarrow>
   exn + TranscriptionResponse" where
  "transcription_body w s file_path lang temperature task =
     (case validate_audio_file w file_path of
        Inl e \<Rightarrow> Inl e
      | Inr info \<Rightarrow>
          (case preprocess_audio w file_path of
             Inl e \<Rightarrow> Inl e
           | Inr processed_file \<Rightarrow>
               (case submit (executor s) of
                  Inl e \<Rightarrow> Inl (PyException e)
                | Inr _ \<Rightarrow>
                    (case transcribe_sync w s processed_file lang temperature task of
                       Inl e \<Rightarrow> Inl e
                     | Inr result \<Rightarrow>
                         create_transcription_response (model_size s) result (file_duration info)
                           (transcription_finished w - transcription_started w)))))"

text \<open>
  The step before the counter is touched: a requested size that is not empty and differs from
  the recorded one is loaded; an exception of \<open>load_model\<close> leaves \<open>transcribe_audio\<close>
  as it is.
\<close>

definition resolve_model :: "world \<Rightarrow> string option \<Rightarrow> service \<Rightarrow> exn option \<times> service" where
  "resolve_model w requested s =
     (if truthy_str requested \<and> requested \<noteq> model_size s
      then (case load_model w requested s of
              (Inl e, s') \<Rightarrow> (Some e, s')
            | (Inr _, s') \<Rightarrow> (None, s'))
      else (None, s))"

definition transcribe_audio ::
  "world \<Rightarrow> string \<Rightarrow> string option \<Rightarrow> string option \<Rightarrow> real \<Rightarrow> string \<Rightarrow> service \<Rightarrow>
   (exn + TranscriptionResponse) \<times> service" where
  "transcribe_audio w file_path requested lang temperature task s =
     (if model s = None
      then (Inl (ModelNotLoaded ''No model is currently loaded'' None), s)
      else (case resolve_model w requested s of
              (Some e, s1) \<Rightarrow> (Inl e, s1)
            | (None, s1) \<Rightarrow>
                (let s2 = s1\<lparr>active_transcriptions := active_transcriptions s1 + 1\<rparr>;
                     r = (case transcription_body w s2 file_path lang temperature task of
                            Inl e \<Rightarrow> Inl (TranscriptionFailed ''Transcription failed''
                                           (Some (str_exn e)) (Some file_path))
                          | Inr response \<Rightarrow> Inr response)
                 in (r, s2\<lparr>active_transcriptions := active_transcriptions s2 - 1\<rparr>))))"

section \<open>WhisperService.get_model_info\<close>

definition get_model_info :: "world \<Rightarrow> service \<Rightarrow> ModelInfoResponse" where
  "get_model_info w s =
     \<lparr>info_model_size = (if truthy_str (model_size s) then the (model_size s) else ''none''),
      info_memory_usage_mb = memory_usage w,
      info_load_time_seconds =
        (case model_load_time s of
           None \<Rightarrow> 0
         | Some t \<Rightarrow> if t = 0 then 0 else time_now w - t),
      supported_languages = service_supported_languages,
      is_loaded = (model s \<noteq> None),
      last_loaded =
        (case model_load_time s of None \<Rightarrow> None | Some t \<Rightarrow> if t = 0 then None else Some t)\<rparr>"

definition get_active_transcriptions :: "service \<Rightarrow> int" where
  "get_active_transcriptions s = active_transcriptions s"

definition is_model_loaded :: "service \<Rightarrow> bool" where
  "is_model_loaded s = (model s \<noteq> None)"

definition get_current_model_size :: "service \<Rightarrow> string option" where
  "get_current_model_size s = model_size s"

section \<open>What other coroutines do\<close>

text \<open>
  Between two suspension points a coroutine runs alone. The pieces of the service's methods
  between suspension points that change its attributes are the actions below; a coroutine that
  is suspended sees the service changed by the actions of the others.
\<close>

datatype action =
    BeginLoad world "string option"
  | FinishLoad world string
  | EnterTranscription
  | LeaveTranscription
  | Release

text \<open>What \<open>cleanup\<close> does once the counter allows it.\<close>

definition release :: "service \<Rightarrow> service" where
  "release s =
     (let s1 = s\<lparr>executor := (executor s)\<lparr>is_shutdown := True\<rparr>\<rparr>
      in if model s1 \<noteq> None then s1\<lparr>model := None, model_size := None\<rparr> else s1)"

fun step :: "action \<Rightarrow> service \<Rightarrow> service" where
  "step (BeginLoad w arg) s = snd (load_model_begin w arg s)"
| "step (FinishLoad w m) s = snd (load_model_finish w m s)"
| "step EnterTranscription s = s\<lparr>active_transcriptions := active_transcriptions s + 1\<rparr>"
| "step LeaveTranscription s = s\<lparr>active_transcriptions := active_transcriptions s - 1\<rparr>"
| "step Release s = release s"

section \<open>WhisperService.cleanup\<close>

definition poll_interval :: real where
  "poll_interval = 1"

text \<open>
  The loop of \<open>cleanup\<close> suspends in \<open>asyncio.sleep\<close>. Each element of \<open>others\<close> tells,
  for one sleep and from its length, the actions that other coroutines perform during it. The
  answer is \<open>None\<close> when the counter is still positive after the last sleep that \<open>others\<close>
  describes: \<open>cleanup\<close> has not returned. Shutting the pool down and dropping the model
  raise nothing, so the handler of \<open>cleanup\<close> is never entered.
\<close>

fun cleanup :: "(real \<Rightarrow> action list) list \<Rightarrow> service \<Rightarrow> service option" where
  "cleanup [] s = (if 0 < active_transcriptions s then None else Some (release s))"
| "cleanup (during_sleep # others) s =
     (if 0 < active_transcriptions s
      then cleanup others (fold step (during_sleep poll_interval) s)
      else Some (release s))"

text \<open>The service as \<open>cleanup\<close> sees it at its \<open>k\<close>-th test of the counter.\<close>

definition polled :: "(real \<Rightarrow> action list) list \<Rightarrow> service \<Rightarrow> nat \<Rightarrow> service" where
  "polled others s k = fold (\<lambda>during_sleep. fold step (during_sleep poll_interval)) (take k others) s"

section \<open>Reachable states\<close>

text \<open>
  The states the service can be in: the one \<open>__init__\<close> builds, changed by any sequence of
  actions. \<open>loadable\<close> bounds what the model loader accepts: it yields a model only for a
  name that satisfies \<open>loadable\<close>.
\<close>

fun admissible :: "(string \<Rightarrow> bool) \<Rightarrow> action \<Rightarrow> bool" where
  "admissible loadable (FinishLoad w m) =
     (case load_model_sync w m of Inl _ \<Rightarrow> True | Inr _ \<Rightarrow> loadable m)"
| "admissible loadable _ = True"

inductive reachable :: "(string \<Rightarrow> bool) \<Rightarrow> service \<Rightarrow> bool" for loadable where
  reachable_init: "reachable loadable (WhisperService_init w)"
| reachable_step: "reachable loadable s \<Longrightarrow> admissible loadable a \<Longrightarrow> reachable loadable (step a s)"

section \<open>The confidence as the specification words it\<close>

text \<open>
  Average the log-probabilities that are present, add one and clamp to the unit interval;
  no confidence when none is present.
\<close>

definition clamp :: "real \<Rightarrow> real \<Rightarrow> real \<Rightarrow> real" where
  "clamp x lo hi = (if x < lo then lo else if hi < x then hi else x)"

definition spec_confidence :: "raw_segment list \<Rightarrow> real option" where
  "spec_confidence raw =
     (let logprobs = List.map_filter avg_logprob raw
      in if logprobs = [] then None
         else Some (clamp (sum_list logprobs / real (length logprobs) + 1) 0 1))"

section \<open>An example environment\<close>

text \<open>
  A world in which three files exist: a small WAV file, a WAV file of 30 MB and a text file.
  The loader knows four model names and runs out of memory on every other one; the engine
  answers two segments with the log-probabilities \<open>-0.1\<close> and \<open>-0.3\<close>.
\<close>

definition example_result :: whisper_result where
  "example_result =
     \<lparr>result_segments = Some
        [\<lparr>seg_start = Some (Fin 0), seg_end = Some (Fin 1), seg_text = Some '' hello'',
          avg_logprob = Some (- 1 / 10)\<rparr>,
         \<lparr>seg_start = Some (Fin 1), seg_end = Some (Fin 2), seg_text = Some '' world '',
          avg_logprob = Some (- 3 / 10)\<rparr>],
      result_text = Some '' hello world'', result_language = Some ''en''\<rparr>"


definition example_world :: world where
  "example_world =
     \<lparr>cfg = default_settings,
      path_exists = (\<lambda>p. p = ''/tmp/a.wav'' \<or> p = ''/tmp/big.wav'' \<or> p = ''/tmp/a.txt''),
      path_getsize = (\<lambda>p. if p = ''/tmp/big.wav'' then Inr 30000000 else Inr 1000),
      path_suffix = (\<lambda>p. if p = ''/tmp/a.txt'' then ''.txt'' else ''.WAV''),
      read_header = (\<lambda>p. Inr ''RIFF0000WAVEfmt ''),
      librosa_info = (\<lambda>p. Inr (2, 44100)),
      librosa_load = (\<lambda>p. Inr ()),
      uuid4 = ''0a1b'',
      makedirs = (\<lambda>d. Inr ()),
      sf_write = (\<lambda>p. Inr ()),
      memory_usage = 512,
      cuda_available = False,
      whisper_load_model =
        (\<lambda>m device. if m \<in> set [''tiny'', ''base'', ''small'', ''medium'']
                    then Inr (length m) else Inl ''out of memory''),
      whisper_transcribe = (\<lambda>h p lang temperature task. Inr example_result),
      load_started = 10, load_stored = 12, load_finished = 12,
      transcription_started = 20, transcription_finished = 23, time_now = 30\<rparr>"

text \<open>The service after start-up in that world, with the model \<open>base\<close> loaded.\<close>

definition example_service :: service where
  "example_service = snd (load_model example_world None (WhisperService_init example_world))"

section \<open>The example environment, evaluated\<close>

lemmas example_defs =
  example_world_def default_settings_def validate_audio_file_def validate_body_def
  validate_file_size_def max_file_size_bytes_def validate_file_format_def get_file_extension_def
  lower_char_def supported_formats_set_def get_audio_info_def detect_audio_format_def
  startswith_def slice_def preprocess_audio_def preprocess_body_def create_temp_file_def
  truthy_str_def Let_def

lemma example_validate:
  "validate_audio_file example_world ''/tmp/a.wav''
     = Inr \<lparr>valid = True, file_format = Some ''wav'', file_size = 1000,
            file_size_mb = py_round (1000 / (1024 * 1024)) 2, file_duration = 2,
            sample_rate = 44100\<rparr>"
  by (simp add: example_defs)

lemma example_validate_big:
  "validate_audio_file example_world ''/tmp/big.wav''
     = Inl (FileTooLarge ''File size exceeds maximum allowed size'' (Some 30000000)
             (Some 26214400))"
  by (simp add: example_defs)

lemma example_validate_txt:
  "validate_audio_file example_world ''/tmp/a.txt''
     = Inl (InvalidAudioFormat ''Invalid or unsupported audio format'' (Some ''wav'')
             (Some [''mp3'', ''wav'', ''m4a'', ''flac'', ''ogg'', ''wma'']))"
  by (simp add: example_defs)

lemma example_validate_missing:
  "validate_audio_file example_world ''/tmp/gone.wav''
     = Inl (FileSystemError ''File does not exist'' None (Some ''/tmp/gone.wav'') None)"
  by (simp add: example_defs)

lemma example_preprocess:
  "preprocess_audio example_world ''/tmp/a.wav''
     = Inr ''/tmp/whisperrr_uploads/whisperrr_0a1b.wav''"
  by (simp add: example_defs)

lemma example_service_eq:
  "example_service =
     \<lparr>model = Some 4, model_size = Some ''base'', model_load_time = Some 12,
      is_loading = False, active_transcriptions = 0, service_start_time = 30,
      executor = \<lparr>max_workers = 3, is_shutdown = False\<rparr>\<rparr>"
  by (simp add: example_service_def load_model_def load_model_begin_def load_model_finish_def
      WhisperService_init_def example_world_def requested_size_def default_settings_def
      submit_def load_model_sync_def)

lemma example_segments:
  "extract_segments (get_or (result_segments example_result) [])
     = Inr [\<lparr>start_time = Fin 0, end_time = Fin 1, segment_text = ''hello'', confidence = None\<rparr>,
            \<lparr>start_time = Fin 1, end_time = Fin 2, segment_text = ''world'', confidence = None\<rparr>]"
  by (simp add: example_result_def get_or_def new_TranscriptionSegment_def validate_end_time_def
      unit_interval_errors_def strip_def is_space_def)

lemma example_confidence: "overall_confidence example_result = Some (4 / 5)"
  by (simp add: example_result_def overall_confidence_def get_or_def)

lemma example_response:
  "create_transcription_response (Some ''base'') example_result 2 3
     = Inr \<lparr>response_text = ''hello world'', language = Some ''en'', duration = 2,
            segments =
              [\<lparr>start_time = Fin 0, end_time = Fin 1, segment_text = ''hello'', confidence = None\<rparr>,
               \<lparr>start_time = Fin 1, end_time = Fin 2, segment_text = ''world'', confidence = None\<rparr>],
            confidence_score = Some (4 / 5), model_used = ''base'', processing_time = 3\<rparr>"
  unfolding create_transcription_response_def example_segments example_confidence
  by (simp add: new_TranscriptionResponse_def unit_interval_errors_def example_result_def
      get_or_def strip_def is_space_def py_round_def)

lemma example_body:
  assumes "model s = Some 4" and "model_size s = Some ''base''" and "\<not> is_shutdown (executor s)"
  shows "transcription_body example_world s ''/tmp/a.wav'' None 0 ''transcribe''
      = Inr \<lparr>response_text = ''hello world'', language = Some ''en'', duration = 2,
             segments =
               [\<lparr>start_time = Fin 0, end_time = Fin 1, segment_text = ''hello'', confidence = None\<rparr>,
                \<lparr>start_time = Fin 1, end_time = Fin 2, segment_text = ''world'', confidence = None\<rparr>],
             confidence_score = Some (4 / 5), model_used = ''base'', processing_time = 3\<rparr>"
proof -
  have engine: "whisper_transcribe example_world h p l t k = Inr example_result" for h p l t k
    by (simp add: example_world_def)
  have clock: "transcription_finished example_world - transcription_started example_world = 3"
    by (simp add: example_world_def)
  show ?thesis
    unfolding transcription_body_def example_validate example_preprocess clock
    using assms
    by (simp add: submit_def transcribe_sync_def truthy_str_def engine example_response)
qed

lemma example_transcribe:
  "transcribe_audio example_world ''/tmp/a.wav'' None None 0 ''transcribe'' example_service
     = (Inr \<lparr>response_text = ''hello world'', language = Some ''en'', duration = 2,
             segments =
               [\<lparr>start_time = Fin 0, end_time = Fin 1, segment_text = ''hello'', confidence = None\<rparr>,
                \<lparr>start_time = Fin 1, end_time = Fin 2, segment_text = ''world'', confidence = None\<rparr>],
             confidence_score = Some (4 / 5), model_used = ''base'', processing_time = 3\<rparr>,
        example_service)"
  by (simp add: transcribe_audio_def resolve_model_def Let_def example_body example_service_eq
      truthy_str_def)

section \<open>Segments\<close>

text \<open>
  What the validator does: a segment is constructed exactly when the test \<open>end <= start\<close>
  is false and the confidence is within its bounds. When neither time is NaN, the end of a
  constructed segment is after its start.
\<close>

lemma segment_constructed_iff:
  "(\<exists>seg. new_TranscriptionSegment st en tx conf = Inr seg)
     \<longleftrightarrow> \<not> float_le en st \<and> unit_interval_errors conf = []"
  by (simp add: new_TranscriptionSegment_def validate_end_time_def Let_def)

lemma float_le_total: "x \<noteq> NaN \<Longrightarrow> y \<noteq> NaN \<Longrightarrow> float_le x y \<or> float_le y x"
  by (cases x; cases y) auto

lemma segment_ordered_without_nan:
  assumes "st \<noteq> NaN" and "en \<noteq> NaN" and "new_TranscriptionSegment st en tx conf = Inr seg"
  shows "float_less (start_time seg) (end_time seg)"
proof -
  from assms(3) have "\<not> float_le en st" and "start_time seg = st" and "end_time seg = en"
    by (auto simp: new_TranscriptionSegment_def validate_end_time_def Let_def split: if_splits)
  with float_le_total [OF assms(1,2)] show ?thesis
    by (auto simp: float_less_def)
qed

text \<open>
  C8 at a segment that starts at \<open>0.0\<close> and whose end time is NaN. Its end time is not
  greater than its start time, and the claim has it rejected; the validator, which is to
  ensure that the end time is after the start time, tests \<open>end <= start\<close>, which is false
  for NaN, and the segment is constructed. The segment of the specification, from \<open>1.0\<close>
  to \<open>0.5\<close>, and a segment with equal times are rejected.
\<close>

theorem segment_with_nan_end_constructed:
  "new_TranscriptionSegment (Fin 0) NaN ''x'' None
     = Inr \<lparr>start_time = Fin 0, end_time = NaN, segment_text = ''x'', confidence = None\<rparr>
   \<and> \<not> float_less (Fin 0) NaN
   \<and> new_TranscriptionSegment (Fin 1) (Fin (1 / 2)) ''late'' None
     = Inl (ValidationError ''TranscriptionSegment'' [''End time must be after start time''])
   \<and> new_TranscriptionSegment (Fin 2) (Fin 2) ''same'' None
     = Inl (ValidationError ''TranscriptionSegment'' [''End time must be after start time''])"
  by (simp add: new_TranscriptionSegment_def validate_end_time_def unit_interval_errors_def
      float_less_def)

section \<open>Response assembly\<close>

lemma confidences_map_filter:
  "map (\<lambda>seg. get_or (avg_logprob seg) 0) (filter (\<lambda>seg. avg_logprob seg \<noteq> None) segs)
     = List.map_filter avg_logprob segs"
  by (induction segs) (auto simp: List.map_filter_def get_or_def)

lemma max_min_clamp: "max 0 (min 1 x) = clamp x 0 1"
  by (simp add: clamp_def)

lemma overall_confidence_spec:
  "overall_confidence r = spec_confidence (get_or (result_segments r) [])"
proof (cases "result_segments r")
  case None
  then show ?thesis
    by (simp add: overall_confidence_def spec_confidence_def get_or_def)
next
  case (Some segs)
  show ?thesis
  proof (cases "segs = []")
    case True
    with Some show ?thesis
      by (simp add: overall_confidence_def spec_confidence_def get_or_def)
  next
    case False
    with Some show ?thesis
      unfolding overall_confidence_def spec_confidence_def confidences_map_filter max_min_clamp
      by (simp add: get_or_def)
  qed
qed

lemma create_response_confidence:
  "create_transcription_response cur r d t = Inr resp \<Longrightarrow>
   confidence_score resp = overall_confidence r"
  by (auto simp: create_transcription_response_def new_TranscriptionResponse_def Let_def
           split: sum.splits if_splits)

lemma spec_confidence_None: "spec_confidence raw = None \<longleftrightarrow> List.map_filter avg_logprob raw = []"
  by (simp add: spec_confidence_def Let_def)

lemma create_response_empty:
  "get_or (result_segments r) [] = [] \<Longrightarrow>
   create_transcription_response (Some m) r d t
     = Inr \<lparr>response_text = strip (get_or (result_text r) []), language = result_language r,
            duration = d, segments = [], confidence_score = None, model_used = m,
            processing_time = py_round t 3\<rparr>"
  by (simp add: create_transcription_response_def new_TranscriptionResponse_def
      overall_confidence_spec spec_confidence_def unit_interval_errors_def)

lemma spec_confidence_in_bounds: "unit_interval_errors (spec_confidence raw) = []"
  by (simp add: spec_confidence_def Let_def unit_interval_errors_def clamp_def)

lemma create_response_success:
  "extract_segments (get_or (result_segments r) []) = Inr segs \<Longrightarrow>
   create_transcription_response (Some m) r d t
     = Inr \<lparr>response_text = strip (get_or (result_text r) []), language = result_language r,
            duration = d, segments = segs,
            confidence_score = spec_confidence (get_or (result_segments r) []), model_used = m,
            processing_time = py_round t 3\<rparr>"
  by (simp add: create_transcription_response_def new_TranscriptionResponse_def
      overall_confidence_spec spec_confidence_in_bounds)

text \<open>
  C6. The confidence that the assembler computes is, for every raw result, the one the
  specification words: over the raw segments that carry a log-probability, the average plus
  one, clamped to the unit interval. Whenever the raw segments are all accepted, the response
  is assembled, without an error, with that confidence; and every response that is assembled
  has it. The confidence is absent exactly when no raw segment carries a log-probability, and
  an empty or missing raw segment list gives a response with no segment and no confidence.
  Log-probabilities are reals here; the witness has the log-probabilities \<open>-0.1\<close> and
  \<open>-0.3\<close>, which give \<open>0.8\<close>, and \<open>-2.5\<close> and \<open>0.5\<close>, which are clamped to
  \<open>0\<close> and to \<open>1\<close>.
\<close>

theorem result_assembler_confidence:
  "overall_confidence r = spec_confidence (get_or (result_segments r) [])
   \<and> (\<forall>segs. extract_segments (get_or (result_segments r) []) = Inr segs \<longrightarrow>
        create_transcription_response (Some m) r d t
          = Inr \<lparr>response_text = strip (get_or (result_text r) []),
                 language = result_language r, duration = d, segments = segs,
                 confidence_score = spec_confidence (get_or (result_segments r) []),
                 model_used = m, processing_time = py_round t 3\<rparr>)
   \<and> (\<forall>resp. create_transcription_response cur r d t = Inr resp \<longrightarrow>
        confidence_score resp = spec_confidence (get_or (result_segments r) []))
   \<and> (spec_confidence raw = None \<longleftrightarrow> (\<forall>seg \<in> set raw. avg_logprob seg = None))
   \<and> (get_or (result_segments r) [] = [] \<longrightarrow>
        create_transcription_response (Some m) r d t
          = Inr \<lparr>response_text = strip (get_or (result_text r) []),
                 language = result_language r, duration = d, segments = [],
                 confidence_score = None, model_used = m, processing_time = py_round t 3\<rparr>)"
proof (intro conjI allI impI)
  show "overall_confidence r = spec_confidence (get_or (result_segments r) [])"
    by (rule overall_confidence_spec)
next
  fix segs
  assume "extract_segments (get_or (result_segments r) []) = Inr segs"
  then show "create_transcription_response (Some m) r d t
          = Inr \<lparr>response_text = strip (get_or (result_text r) []),
                 language = result_language r, duration = d, segments = segs,
                 confidence_score = spec_confidence (get_or (result_segments r) []),
                 model_used = m, processing_time = py_round t 3\<rparr>"
    by (rule create_response_success)
next
  fix resp
  assume "create_transcription_response cur r d t = Inr resp"
  then show "confidence_score resp = spec_confidence (get_or (result_segments r) [])"
    by (simp add: create_response_confidence overall_confidence_spec)
next
  show "spec_confidence raw = None \<longleftrightarrow> (\<forall>seg \<in> set raw. avg_logprob seg = None)"
    by (simp add: spec_confidence_None List.map_filter_def filter_empty_conv)
next
  assume "get_or (result_segments r) [] = []"
  then show "create_transcription_response (Some m) r d t
          = Inr \<lparr>response_text = strip (get_or (result_text r) []),
                 language = result_language r, duration = d, segments = [],
                 confidence_score = None, model_used = m, processing_time = py_round t 3\<rparr>"
    by (rule create_response_empty)
qed

theorem result_assembler_confidence_witness:
  "(\<exists>resp. create_transcription_response (Some ''base'') example_result 2 3 = Inr resp
           \<and> confidence_score resp = Some (4 / 5)
           \<and> spec_confidence (get_or (result_segments example_result) []) = Some (4 / 5))
   \<and> overall_confidence example_result = Some (4 / 5)
   \<and> (\<exists>resp. create_transcription_response (Some ''base'')
                \<lparr>result_segments = Some [\<lparr>seg_start = Some (Fin 0), seg_end = Some (Fin 1),
                                           seg_text = Some ''low'', avg_logprob = Some (- 5 / 2)\<rparr>],
                 result_text = Some ''low'', result_language = None\<rparr>
                2 3 = Inr resp
            \<and> confidence_score resp = Some 0)
   \<and> (\<exists>resp. create_transcription_response (Some ''base'')
                \<lparr>result_segments = Some [\<lparr>seg_start = Some (Fin 0), seg_end = Some (Fin 1),
                                           seg_text = Some ''high'', avg_logprob = Some (1 / 2)\<rparr>],
                 result_text = Some ''high'', result_language = None\<rparr>
                2 3 = Inr resp
            \<and> confidence_score resp = Some 1)
   \<and> spec_confidence [\<lparr>seg_start = Some (Fin 0), seg_end = Some (Fin 1), seg_text = Some ''a'',
                        avg_logprob = None\<rparr>] = None
   \<and> (\<exists>resp. create_transcription_response (Some ''base'')
                \<lparr>result_segments = Some [], result_text = Some ''  '', result_language = None\<rparr>
                2 3 = Inr resp
            \<and> segments resp = [] \<and> confidence_score resp = None)
   \<and> (\<exists>resp. create_transcription_response (Some ''base'')
                \<lparr>result_segments = None, result_text = None, result_language = None\<rparr>
                2 3 = Inr resp
            \<and> segments resp = [] \<and> confidence_score resp = None)"
proof -
  show ?thesis
    using result_assembler_confidence [where r = example_result and cur = "Some ''base''"
            and m = "''base''" and d = 2 and t = 3
            and raw = "[\<lparr>seg_start = Some (Fin 0), seg_end = Some (Fin 1),
                         seg_text = Some ''a'', avg_logprob = None\<rparr>]"]
      result_assembler_confidence [where cur = "Some ''base''" and m = "''base''" and d = 2
            and t = 3 and raw = "[]"
            and r = "\<lparr>result_segments = Some [\<lparr>seg_start = Some (Fin 0),
                         seg_end = Some (Fin 1), seg_text = Some ''low'',
                         avg_logprob = Some (- 5 / 2)\<rparr>],
                       result_text = Some ''low'', result_language = None\<rparr>"]
      result_assembler_confidence [where cur = "Some ''base''" and m = "''base''" and d = 2
            and t = 3 and raw = "[]"
            and r = "\<lparr>result_segments = Some [\<lparr>seg_start = Some (Fin 0),
                         seg_end = Some (Fin 1), seg_text = Some ''high'',
                         avg_logprob = Some (1 / 2)\<rparr>],
                       result_text = Some ''high'', result_language = None\<rparr>"]
      result_assembler_confidence [where cur = "Some ''base''" and m = "''base''" and d = 2
            and t = 3 and raw = "[]"
            and r = "\<lparr>result_segments = Some [], result_text = Some ''  '',
                       result_language = None\<rparr>"]
      result_assembler_confidence [where cur = "Some ''base''" and m = "''base''" and d = 2
            and t = 3 and raw = "[]"
            and r = "\<lparr>result_segments = None, result_text = None, result_language = None\<rparr>"]
    by (simp add: get_or_def example_result_def new_TranscriptionSegment_def
        validate_end_time_def unit_interval_errors_def strip_def is_space_def
        spec_confidence_def clamp_def)
qed

section \<open>Rejected segments\<close>


lemma extract_segments_good:
  "\<forall>seg \<in> set raw. \<not> float_le (get_or (seg_end seg) (Fin 0)) (get_or (seg_start seg) (Fin 0)) \<Longrightarrow>
   \<exists>segs. extract_segments raw = Inr segs \<and> length segs = length raw"
  by (induction raw)
    (auto simp: new_TranscriptionSegment_def validate_end_time_def unit_interval_errors_def)


lemma transcribe_audio_body:
  assumes "model s = Some h" and "\<not> (truthy_str requested \<and> requested \<noteq> model_size s)"
  shows "transcribe_audio w fp requested lang temp task s
     = ((case transcription_body w (s\<lparr>active_transcriptions := active_transcriptions s + 1\<rparr>)
               fp lang temp task of
           Inl e \<Rightarrow> Inl (TranscriptionFailed ''Transcription failed'' (Some (str_exn e)) (Some fp))
         | Inr response \<Rightarrow> Inr response), s)"
proof -
  have "resolve_model w requested s = (None, s)"
    using assms(2) by (auto simp: resolve_model_def)
  then show ?thesis
    using assms(1) by (simp add: transcribe_audio_def Let_def)
qed



section \<open>The counter of active requests\<close>

lemma load_model_begin_active:
  "active_transcriptions (snd (load_model_begin w arg s)) = active_transcriptions s"
  by (simp add: load_model_begin_def Let_def split: sum.splits)

lemma load_model_finish_active:
  "active_transcriptions (snd (load_model_finish w m s)) = active_transcriptions s"
  by (simp add: load_model_finish_def split: sum.splits)

lemma load_model_active:
  "active_transcriptions (snd (load_model w arg s)) = active_transcriptions s"
proof (cases "load_model_begin w arg s")
  case (Pair r s')
  with load_model_begin_active [of w arg s] have "active_transcriptions s' = active_transcriptions s"
    by simp
  with Pair show ?thesis
    by (cases r) (simp_all add: load_model_def load_model_finish_active)
qed

lemma resolve_model_active:
  "active_transcriptions (snd (resolve_model w requested s)) = active_transcriptions s"
  using load_model_active [of w requested s]
  by (auto simp: resolve_model_def split: prod.splits sum.splits)

text \<open>
  C1. Whatever the environment answers and whatever the arguments are, the counter of active
  requests after a call of \<open>transcribe_audio\<close> that runs without interleaving is the one
  before it; a call made while no model is loaded raises \<open>ModelNotLoaded\<close> and changes
  nothing at all.
\<close>

theorem transcribe_audio_counter_restored:
  "active_transcriptions (snd (transcribe_audio w fp requested lang temp task s))
     = active_transcriptions s
   \<and> (model s = None \<longrightarrow>
        transcribe_audio w fp requested lang temp task s
          = (Inl (ModelNotLoaded ''No model is currently loaded'' None), s))"
proof
  show "active_transcriptions (snd (transcribe_audio w fp requested lang temp task s))
     = active_transcriptions s"
  proof (cases "resolve_model w requested s")
    case (Pair e s1)
    with resolve_model_active [of w requested s]
    have "active_transcriptions s1 = active_transcriptions s"
      by simp
    with Pair show ?thesis
      by (cases e) (simp_all add: transcribe_audio_def Let_def)
  qed
  show "model s = None \<longrightarrow>
        transcribe_audio w fp requested lang temp task s
          = (Inl (ModelNotLoaded ''No model is currently loaded'' None), s)"
    by (simp add: transcribe_audio_def)
qed

theorem transcribe_audio_counter_restored_witness:
  "transcribe_audio example_world ''/tmp/a.wav'' (Some ''small'') None 0 ''transcribe''
       (WhisperService_init example_world)
     = (Inl (ModelNotLoaded ''No model is currently loaded'' None),
        WhisperService_init example_world)
   \<and> active_transcriptions (snd (transcribe_audio example_world ''/tmp/a.wav'' (Some ''small'')
         None 0 ''transcribe'' (WhisperService_init example_world))) = 0
   \<and> active_transcriptions (snd (transcribe_audio example_world ''/tmp/big.wav'' (Some ''large'')
         None 0 ''transcribe'' (example_service\<lparr>active_transcriptions := 2\<rparr>))) = 2"
  using transcribe_audio_counter_restored [of example_world "''/tmp/a.wav''" "Some ''small''" None
          0 "''transcribe''" "WhisperService_init example_world"]
    transcribe_audio_counter_restored [of example_world "''/tmp/big.wav''" "Some ''large''" None
          0 "''transcribe''" "example_service\<lparr>active_transcriptions := 2\<rparr>"]
  by (simp add: WhisperService_init_def)

section \<open>Loading a model\<close>

lemma load_model_busy:
  "is_loading s \<Longrightarrow>
   load_model_begin w arg s
     = (Some (Inl (ModelLoadFailed ''Model is already being loaded''
                    (Some (requested_size w arg)) None)), s)"
  by (simp add: load_model_begin_def Let_def)

lemma example_loading:
  "snd (load_model_begin example_world (Some ''base'') (WhisperService_init example_world))
     = (WhisperService_init example_world)\<lparr>is_loading := True\<rparr>"
  by (simp add: load_model_begin_def WhisperService_init_def requested_size_def submit_def)

text \<open>
  C2, as the claim states it, fails: while the load of \<open>base\<close> is in progress, a load of
  \<open>small\<close> raises \<open>ModelLoadFailed\<close>, with the error code \<open>MODEL_LOAD_FAILED\<close>; no other
  kind of error exists for it.
\<close>

theorem concurrent_load_counterexample:
  "is_loading (snd (load_model_begin example_world (Some ''base'')
                      (WhisperService_init example_world)))
   \<and> fst (load_model example_world (Some ''small'')
            (snd (load_model_begin example_world (Some ''base'')
                    (WhisperService_init example_world))))
       = Inl (ModelLoadFailed ''Model is already being loaded'' (Some ''small'') None)
   \<and> error_code (ModelLoadFailed ''Model is already being loaded'' (Some ''small'') None)
       = Some ''MODEL_LOAD_FAILED''"
  by (simp add: example_loading load_model_def load_model_busy requested_size_def)

text \<open>
  C2, amended. A call of \<open>load_model\<close> made while a load is in progress raises at once
  \<open>ModelLoadFailed\<close>, with the message that a model is already being loaded, the requested
  size and no cause; its error code is \<open>MODEL_LOAD_FAILED\<close>. The service is left exactly as
  it was, the load in progress still being flagged: nothing is queued and the loader is not
  consulted.
\<close>

theorem concurrent_load_rejected:
  assumes "is_loading s"
  shows "load_model w arg s
           = (Inl (ModelLoadFailed ''Model is already being loaded''
                    (Some (requested_size w arg)) None), s)
    \<and> error_code (ModelLoadFailed ''Model is already being loaded''
                    (Some (requested_size w arg)) None) = Some ''MODEL_LOAD_FAILED''
    \<and> is_loading (snd (load_model w arg s))"
  using assms by (simp add: load_model_def load_model_busy)

theorem concurrent_load_rejected_witness:
  "load_model example_world (Some ''small'') ((WhisperService_init example_world)\<lparr>is_loading := True\<rparr>)
     = (Inl (ModelLoadFailed ''Model is already being loaded'' (Some ''small'') None),
        (WhisperService_init example_world)\<lparr>is_loading := True\<rparr>)"
  using concurrent_load_rejected [of "(WhisperService_init example_world)\<lparr>is_loading := True\<rparr>"
          example_world "Some ''small''"]
  by (simp add: requested_size_def)

lemma not_loading_unchanged: "\<not> is_loading s \<Longrightarrow> s\<lparr>is_loading := False\<rparr> = s"
  by simp

lemma load_model_failure:
  assumes "\<not> is_loading s" and "fst (load_model w arg s) = Inl e"
  shows "snd (load_model w arg s) = s"
    and "\<exists>cause. e = ModelLoadFailed (''Failed to load model '' @ requested_size w arg)
                       (Some (requested_size w arg)) (Some cause)
               \<and> (if is_shutdown (executor s)
                   then cause = ''cannot schedule new futures after shutdown''
                   else load_model_sync w (requested_size w arg) = Inl cause)"
  using assms
  by (auto simp: load_model_def load_model_begin_def load_model_finish_def Let_def submit_def
           split: if_splits sum.splits)

lemma example_failed_load:
  "load_model example_world (Some ''large'') example_service
     = (Inl (ModelLoadFailed ''Failed to load model large'' (Some ''large'')
              (Some ''out of memory'')), example_service)"
  by (simp add: example_service_eq load_model_def load_model_begin_def load_model_finish_def
      requested_size_def submit_def load_model_sync_def example_world_def)

text \<open>
  C3, as the claim states it, fails: with the model \<open>base\<close> loaded, a load of \<open>large\<close>
  that fails leaves the handle and the size of \<open>base\<close> in place, and the model information
  still reports a loaded model.
\<close>

theorem failed_load_counterexample:
  "fst (load_model example_world (Some ''large'') example_service)
     = Inl (ModelLoadFailed ''Failed to load model large'' (Some ''large'')
             (Some ''out of memory''))
   \<and> model (snd (load_model example_world (Some ''large'') example_service)) = Some 4
   \<and> model_size (snd (load_model example_world (Some ''large'') example_service)) = Some ''base''
   \<and> is_loaded (get_model_info example_world
                  (snd (load_model example_world (Some ''large'') example_service)))
   \<and> info_model_size (get_model_info example_world
                  (snd (load_model example_world (Some ''large'') example_service))) = ''base''"
  by (simp add: example_failed_load) (simp add: example_service_eq get_model_info_def truthy_str_def)

text \<open>
  C3, amended. When a load that was begun (no other load being in progress) fails, the
  service is left exactly as it was before the call: the handle, the size and the load time
  are untouched and the loading flag is clear again. So a model loaded before stays loaded
  and the service is unloaded afterwards only if it was unloaded before. The exception is
  \<open>ModelLoadFailed\<close> with the requested size and the cause, which is the text of the
  loader's exception, or of the thread pool's when it is shut down; both are entries of its
  details when they are not empty. When the load is interleaved with other actions, the part
  after the suspension changes nothing but the loading flag.
\<close>

theorem failed_load_keeps_state:
  assumes "\<not> is_loading s" and "fst (load_model w arg s) = Inl e"
  shows "snd (load_model w arg s) = s
    \<and> is_loaded (get_model_info w (snd (load_model w arg s))) = (model s \<noteq> None)
    \<and> (\<exists>cause. e = ModelLoadFailed (''Failed to load model '' @ requested_size w arg)
                       (Some (requested_size w arg)) (Some cause)
               \<and> (if is_shutdown (executor s)
                   then cause = ''cannot schedule new futures after shutdown''
                   else load_model_sync w (requested_size w arg) = Inl cause)
               \<and> (requested_size w arg \<noteq> [] \<and> cause \<noteq> [] \<longrightarrow>
                    details e = [(''model_size'', DStr (requested_size w arg)),
                                 (''original_error'', DStr cause)]))
    \<and> (\<forall>m cause. load_model_sync w m = Inl cause \<longrightarrow>
          load_model_finish w m s
            = (Inl (ModelLoadFailed (''Failed to load model '' @ m) (Some m) (Some cause)),
               s\<lparr>is_loading := False\<rparr>))"
proof (intro conjI)
  show same: "snd (load_model w arg s) = s"
    using assms by (rule load_model_failure(1))
  show "is_loaded (get_model_info w (snd (load_model w arg s))) = (model s \<noteq> None)"
    by (simp add: same get_model_info_def)
  from load_model_failure(2) [OF assms]
  obtain cause where cause:
    "e = ModelLoadFailed (''Failed to load model '' @ requested_size w arg)
           (Some (requested_size w arg)) (Some cause)"
    "if is_shutdown (executor s)
     then cause = ''cannot schedule new futures after shutdown''
     else load_model_sync w (requested_size w arg) = Inl cause"
    by blast
  have "requested_size w arg \<noteq> [] \<and> cause \<noteq> [] \<longrightarrow>
          details e = [(''model_size'', DStr (requested_size w arg)),
                       (''original_error'', DStr cause)]"
    by (simp add: cause(1) str_entry_def truthy_str_def)
  with cause
  show "\<exists>cause. e = ModelLoadFailed (''Failed to load model '' @ requested_size w arg)
                       (Some (requested_size w arg)) (Some cause)
               \<and> (if is_shutdown (executor s)
                   then cause = ''cannot schedule new futures after shutdown''
                   else load_model_sync w (requested_size w arg) = Inl cause)
               \<and> (requested_size w arg \<noteq> [] \<and> cause \<noteq> [] \<longrightarrow>
                    details e = [(''model_size'', DStr (requested_size w arg)),
                                 (''original_error'', DStr cause)])"
    by blast
  show "\<forall>m cause. load_model_sync w m = Inl cause \<longrightarrow>
          load_model_finish w m s
            = (Inl (ModelLoadFailed (''Failed to load model '' @ m) (Some m) (Some cause)),
               s\<lparr>is_loading := False\<rparr>)"
    by (simp add: load_model_finish_def)
qed

theorem failed_load_keeps_state_witness:
  "snd (load_model example_world (Some ''large'') example_service) = example_service
   \<and> is_loaded (get_model_info example_world
                  (snd (load_model example_world (Some ''large'') example_service)))
   \<and> details (ModelLoadFailed ''Failed to load model large'' (Some ''large'')
                (Some ''out of memory''))
       = [(''model_size'', DStr ''large''), (''original_error'', DStr ''out of memory'')]
   \<and> load_model_finish example_world ''large'' example_service
       = (Inl (ModelLoadFailed ''Failed to load model large'' (Some ''large'')
                (Some ''out of memory'')), example_service\<lparr>is_loading := False\<rparr>)"
  using failed_load_keeps_state [of example_service example_world "Some ''large''"
          "ModelLoadFailed ''Failed to load model large'' (Some ''large'') (Some ''out of memory'')"]
  by (simp add: example_failed_load requested_size_def)
    (simp add: example_service_eq load_model_sync_def example_world_def)

section \<open>Failures inside a transcription\<close>

lemma validation_failure_wrapped:
  assumes "model s = Some h" and "\<not> (truthy_str requested \<and> requested \<noteq> model_size s)"
    and "validate_audio_file w fp = Inl e"
  shows "transcribe_audio w fp requested lang temp task s
           = (Inl (TranscriptionFailed ''Transcription failed'' (Some (str_exn e)) (Some fp)), s)"
  by (simp add: transcribe_audio_body [OF assms(1,2)] transcription_body_def assms(3))

text \<open>
  C4 at three requests to the example service, which has a model loaded: a file of 30 MB, a
  text file and a file that does not exist. \<open>validate_audio_file\<close> raises
  \<open>FileTooLarge\<close>, \<open>InvalidAudioFormat\<close> and \<open>FileSystemError\<close>; what
  \<open>transcribe_audio\<close> raises is each time \<open>TranscriptionFailed\<close>, whose error code is
  \<open>TRANSCRIPTION_FAILED\<close>, with only the message of the first as its original error.
\<close>

theorem validation_errors_rewrapped:
  "validate_audio_file example_world ''/tmp/big.wav''
     = Inl (FileTooLarge ''File size exceeds maximum allowed size'' (Some 30000000)
             (Some 26214400))
   \<and> transcribe_audio example_world ''/tmp/big.wav'' None None 0 ''transcribe'' example_service
     = (Inl (TranscriptionFailed ''Transcription failed''
              (Some ''File size exceeds maximum allowed size'') (Some ''/tmp/big.wav'')),
        example_service)
   \<and> validate_audio_file example_world ''/tmp/a.txt''
     = Inl (InvalidAudioFormat ''Invalid or unsupported audio format'' (Some ''wav'')
             (Some [''mp3'', ''wav'', ''m4a'', ''flac'', ''ogg'', ''wma'']))
   \<and> transcribe_audio example_world ''/tmp/a.txt'' None None 0 ''transcribe'' example_service
     = (Inl (TranscriptionFailed ''Transcription failed''
              (Some ''Invalid or unsupported audio format'') (Some ''/tmp/a.txt'')),
        example_service)
   \<and> validate_audio_file example_world ''/tmp/gone.wav''
     = Inl (FileSystemError ''File does not exist'' None (Some ''/tmp/gone.wav'') None)
   \<and> transcribe_audio example_world ''/tmp/gone.wav'' None None 0 ''transcribe'' example_service
     = (Inl (TranscriptionFailed ''Transcription failed''
              (Some ''File does not exist'') (Some ''/tmp/gone.wav'')),
        example_service)
   \<and> error_code (TranscriptionFailed ''Transcription failed''
                   (Some ''File size exceeds maximum allowed size'') (Some ''/tmp/big.wav''))
     = Some ''TRANSCRIPTION_FAILED''
   \<and> error_code (FileTooLarge ''File size exceeds maximum allowed size'' (Some 30000000)
                   (Some 26214400))
     = Some ''FILE_TOO_LARGE''"
proof -
  have loaded: "model example_service = Some 4"
    and same: "\<not> (truthy_str None \<and> None \<noteq> model_size example_service)"
    by (simp_all add: example_service_eq truthy_str_def)
  show ?thesis
    using validation_failure_wrapped [OF loaded same example_validate_big]
      validation_failure_wrapped [OF loaded same example_validate_txt]
      validation_failure_wrapped [OF loaded same example_validate_missing]
    by (simp add: example_validate_big example_validate_txt example_validate_missing)
qed

section \<open>Resolving the model of a request\<close>

lemma load_model_error_kind:
  "fst (load_model w arg s) = Inl e \<Longrightarrow> \<exists>msg size cause. e = ModelLoadFailed msg size cause"
  by (auto simp: load_model_def load_model_begin_def load_model_finish_def Let_def
           split: if_splits sum.splits)

lemma load_model_success_loaded:
  "fst (load_model w arg s) = Inr report \<Longrightarrow> model (snd (load_model w arg s)) \<noteq> None"
  by (auto simp: load_model_def load_model_begin_def load_model_finish_def Let_def
           split: if_splits sum.splits)

text \<open>
  C5, as the claim states it, fails: with no model loaded, a request for the size
  \<open>small\<close>, which the loader would load, raises \<open>ModelNotLoaded\<close> and leaves the service
  without a model.
\<close>

theorem no_load_on_demand_counterexample:
  "model (WhisperService_init example_world) = None
   \<and> transcribe_audio example_world ''/tmp/a.wav'' (Some ''small'') None 0 ''transcribe''
        (WhisperService_init example_world)
     = (Inl (ModelNotLoaded ''No model is currently loaded'' None),
        WhisperService_init example_world)
   \<and> model (snd (load_model example_world (Some ''small'') (WhisperService_init example_world)))
     = Some 5"
  by (simp add: transcribe_audio_def)
    (simp add: WhisperService_init_def load_model_def load_model_begin_def load_model_finish_def
      requested_size_def submit_def load_model_sync_def example_world_def)

text \<open>
  C5, amended. \<open>transcribe_audio\<close> first requires a model: with none loaded it raises
  \<open>ModelNotLoaded\<close> and loads nothing, whatever size is requested. With a model loaded, a
  requested size that is not empty and differs from the recorded one is loaded first: an
  exception of that load leaves \<open>transcribe_audio\<close> as it is, with the service as the load
  left it, and after a successful load the request goes on as one without a requested size
  does in the service that the load produced. In every other case with a model loaded, that
  is with no requested size, an empty one or the recorded one, nothing is loaded: the result
  is that of the body of the transcription and the service is left as it was.
  \<open>ModelNotLoaded\<close> is raised only when no model is loaded at the entry.
\<close>

theorem transcribe_audio_resolution:
  "(model s = None \<longrightarrow>
      transcribe_audio w fp requested lang temp task s
        = (Inl (ModelNotLoaded ''No model is currently loaded'' None), s))
   \<and> (model s \<noteq> None \<and> truthy_str requested \<and> requested \<noteq> model_size s \<longrightarrow>
        (case load_model w requested s of
           (Inl e, s') \<Rightarrow> transcribe_audio w fp requested lang temp task s = (Inl e, s')
         | (Inr report, s') \<Rightarrow>
             transcribe_audio w fp requested lang temp task s
               = transcribe_audio w fp None lang temp task s'))
   \<and> (model s \<noteq> None \<and> \<not> (truthy_str requested \<and> requested \<noteq> model_size s) \<longrightarrow>
        transcribe_audio w fp requested lang temp task s
          = ((case transcription_body w
                    (s\<lparr>active_transcriptions := active_transcriptions s + 1\<rparr>)
                    fp lang temp task of
                Inl e \<Rightarrow> Inl (TranscriptionFailed ''Transcription failed''
                               (Some (str_exn e)) (Some fp))
              | Inr response \<Rightarrow> Inr response), s))
   \<and> (model s \<noteq> None \<longrightarrow>
        (\<forall>msg size. fst (transcribe_audio w fp requested lang temp task s)
                      \<noteq> Inl (ModelNotLoaded msg size)))"
proof (intro conjI impI)
  assume "model s = None"
  then show "transcribe_audio w fp requested lang temp task s
        = (Inl (ModelNotLoaded ''No model is currently loaded'' None), s)"
    by (simp add: transcribe_audio_def)
next
  assume a: "model s \<noteq> None \<and> truthy_str requested \<and> requested \<noteq> model_size s"
  then obtain h where h: "model s = Some h"
    by auto
  obtain r s' where load: "load_model w requested s = (r, s')"
    by (cases "load_model w requested s")
  show "case load_model w requested s of
           (Inl e, s') \<Rightarrow> transcribe_audio w fp requested lang temp task s = (Inl e, s')
         | (Inr report, s') \<Rightarrow>
             transcribe_audio w fp requested lang temp task s
               = transcribe_audio w fp None lang temp task s'"
  proof (cases r)
    case (Inl e)
    with a h load show ?thesis
      by (simp add: transcribe_audio_def resolve_model_def)
  next
    case (Inr report)
    with load load_model_success_loaded [of w requested s report]
    obtain h' where "model s' = Some h'"
      by auto
    with a h load Inr show ?thesis
      by (simp add: transcribe_audio_def resolve_model_def truthy_str_def)
  qed
next
  assume b: "model s \<noteq> None \<and> \<not> (truthy_str requested \<and> requested \<noteq> model_size s)"
  then obtain h where "model s = Some h"
    by auto
  moreover from b have "\<not> (truthy_str requested \<and> requested \<noteq> model_size s)"
    by simp
  ultimately show "transcribe_audio w fp requested lang temp task s
          = ((case transcription_body w
                    (s\<lparr>active_transcriptions := active_transcriptions s + 1\<rparr>)
                    fp lang temp task of
                Inl e \<Rightarrow> Inl (TranscriptionFailed ''Transcription failed''
                               (Some (str_exn e)) (Some fp))
              | Inr response \<Rightarrow> Inr response), s)"
    by (rule transcribe_audio_body)
next
  assume "model s \<noteq> None"
  then obtain h where loaded: "model s = Some h"
    by auto
  show "\<forall>msg size. fst (transcribe_audio w fp requested lang temp task s)
                      \<noteq> Inl (ModelNotLoaded msg size)"
  proof (cases "truthy_str requested \<and> requested \<noteq> model_size s")
    case False
    with loaded show ?thesis
      by (auto simp: transcribe_audio_def resolve_model_def Let_def split: sum.splits)
  next
    case True
    obtain r s' where load: "load_model w requested s = (r, s')"
      by (cases "load_model w requested s")
    show ?thesis
    proof (cases r)
      case (Inl e)
      with load load_model_error_kind [of w requested s e]
      obtain m sz c where "e = ModelLoadFailed m sz c"
        by auto
      with loaded True load Inl show ?thesis
        by (simp add: transcribe_audio_def resolve_model_def)
    next
      case (Inr report)
      with loaded True load show ?thesis
        by (auto simp: transcribe_audio_def resolve_model_def Let_def split: sum.splits)
    qed
  qed
qed

theorem transcribe_audio_resolution_witness:
  "transcribe_audio example_world ''/tmp/a.wav'' (Some ''small'') None 0 ''transcribe''
       (WhisperService_init example_world)
     = (Inl (ModelNotLoaded ''No model is currently loaded'' None),
        WhisperService_init example_world)
   \<and> transcribe_audio example_world ''/tmp/a.wav'' (Some ''large'') None 0 ''transcribe''
       example_service
     = (Inl (ModelLoadFailed ''Failed to load model large'' (Some ''large'')
              (Some ''out of memory'')), example_service)
   \<and> transcribe_audio example_world ''/tmp/a.wav'' (Some ''small'') None 0 ''transcribe''
       example_service
     = transcribe_audio example_world ''/tmp/a.wav'' None None 0 ''transcribe''
         (snd (load_model example_world (Some ''small'') example_service))
   \<and> model_size (snd (load_model example_world (Some ''small'') example_service)) = Some ''small''
   \<and> fst (transcribe_audio example_world ''/tmp/a.wav'' None None 0 ''transcribe'' example_service)
     \<noteq> Inl (ModelNotLoaded ''No model is currently loaded'' None)
   \<and> transcribe_audio example_world ''/tmp/a.wav'' (Some ''base'') None 0 ''transcribe''
       (example_service\<lparr>is_loading := True\<rparr>)
     = (Inr \<lparr>response_text = ''hello world'', language = Some ''en'', duration = 2,
             segments =
               [\<lparr>start_time = Fin 0, end_time = Fin 1, segment_text = ''hello'', confidence = None\<rparr>,
                \<lparr>start_time = Fin 1, end_time = Fin 2, segment_text = ''world'', confidence = None\<rparr>],
             confidence_score = Some (4 / 5), model_used = ''base'', processing_time = 3\<rparr>,
        example_service\<lparr>is_loading := True\<rparr>)
   \<and> fst (load_model example_world (Some ''base'') (example_service\<lparr>is_loading := True\<rparr>))
     = Inl (ModelLoadFailed ''Model is already being loaded'' (Some ''base'') None)"
proof -
  have small: "load_model example_world (Some ''small'') example_service
      = (Inr \<lparr>success = True, report_model_size = ''small'',
               load_time_seconds = py_round 2 3, memory_usage_mb = 512,
               message = ''Model small loaded successfully''\<rparr>,
         example_service\<lparr>model := Some 5, model_size := Some ''small'',
           model_load_time := Some 12\<rparr>)"
    by (simp add: example_service_eq load_model_def load_model_begin_def load_model_finish_def
        requested_size_def submit_def load_model_sync_def example_world_def)
  have busy: "fst (load_model example_world (Some ''base'') (example_service\<lparr>is_loading := True\<rparr>))
      = Inl (ModelLoadFailed ''Model is already being loaded'' (Some ''base'') None)"
    by (simp add: load_model_def load_model_busy requested_size_def)
  have same: "transcribe_audio example_world ''/tmp/a.wav'' (Some ''base'') None 0 ''transcribe''
       (example_service\<lparr>is_loading := True\<rparr>)
     = (Inr \<lparr>response_text = ''hello world'', language = Some ''en'', duration = 2,
             segments =
               [\<lparr>start_time = Fin 0, end_time = Fin 1, segment_text = ''hello'', confidence = None\<rparr>,
                \<lparr>start_time = Fin 1, end_time = Fin 2, segment_text = ''world'', confidence = None\<rparr>],
             confidence_score = Some (4 / 5), model_used = ''base'', processing_time = 3\<rparr>,
        example_service\<lparr>is_loading := True\<rparr>)"
    using transcribe_audio_resolution [of "example_service\<lparr>is_loading := True\<rparr>" example_world
            "''/tmp/a.wav''" "Some ''base''" None 0 "''transcribe''"]
    by (simp add: example_service_eq truthy_str_def example_body)
  have none: "transcribe_audio example_world ''/tmp/a.wav'' (Some ''small'') None 0 ''transcribe''
       (WhisperService_init example_world)
     = (Inl (ModelNotLoaded ''No model is currently loaded'' None),
        WhisperService_init example_world)"
    using transcribe_audio_resolution [of "WhisperService_init example_world" example_world
            "''/tmp/a.wav''" "Some ''small''" None 0 "''transcribe''"]
    by (simp add: WhisperService_init_def)
  have large: "transcribe_audio example_world ''/tmp/a.wav'' (Some ''large'') None 0 ''transcribe''
       example_service
     = (Inl (ModelLoadFailed ''Failed to load model large'' (Some ''large'')
              (Some ''out of memory'')), example_service)"
    using transcribe_audio_resolution [of example_service example_world
            "''/tmp/a.wav''" "Some ''large''" None 0 "''transcribe''"]
    by (simp add: example_failed_load truthy_str_def) (simp add: example_service_eq)
  have switch: "transcribe_audio example_world ''/tmp/a.wav'' (Some ''small'') None 0 ''transcribe''
       example_service
     = transcribe_audio example_world ''/tmp/a.wav'' None None 0 ''transcribe''
         (snd (load_model example_world (Some ''small'') example_service))"
    using transcribe_audio_resolution [of example_service example_world
            "''/tmp/a.wav''" "Some ''small''" None 0 "''transcribe''"]
    by (simp add: small truthy_str_def) (simp add: example_service_eq)
  have switched: "model_size (snd (load_model example_world (Some ''small'') example_service))
      = Some ''small''"
    by (simp add: small)
  have loaded: "fst (transcribe_audio example_world ''/tmp/a.wav'' None None 0 ''transcribe''
                       example_service)
      \<noteq> Inl (ModelNotLoaded ''No model is currently loaded'' None)"
  proof -
    have "model example_service \<noteq> None"
      by (simp add: example_service_eq)
    with transcribe_audio_resolution [of example_service example_world
            "''/tmp/a.wav''" None None 0 "''transcribe''"]
    show ?thesis
      by blast
  qed
  from none large switch switched loaded same busy show ?thesis
    by blast
qed

section \<open>Shutdown\<close>

lemma release_released:
  "model (release s) = None \<and> is_shutdown (executor (release s))
   \<and> active_transcriptions (release s) = active_transcriptions s"
  by (simp add: release_def Let_def)

lemma polled_0: "polled others s 0 = s"
  by (simp add: polled_def)

lemma polled_Suc:
  "polled (during_sleep # others) s (Suc k) = polled others (fold step (during_sleep poll_interval) s) k"
  by (simp add: polled_def)

lemma cleanup_Some:
  "cleanup others s = Some s' \<Longrightarrow>
   \<exists>k \<le> length others. s' = release (polled others s k)
       \<and> active_transcriptions (polled others s k) \<le> 0
       \<and> (\<forall>j < k. 0 < active_transcriptions (polled others s j))"
proof (induction others arbitrary: s)
  case Nil
  then show ?case
    by (auto simp: polled_0 split: if_splits)
next
  case (Cons during_sleep others)
  show ?case
  proof (cases "0 < active_transcriptions s")
    case False
    with Cons.prems have "s' = release s"
      by simp
    with False show ?thesis
      by (intro exI [of _ 0]) (simp add: polled_0)
  next
    case True
    with Cons.prems
    have "cleanup others (fold step (during_sleep poll_interval) s) = Some s'"
      by simp
    from Cons.IH [OF this]
    obtain k where k: "k \<le> length others"
      "s' = release (polled others (fold step (during_sleep poll_interval) s) k)"
      "active_transcriptions (polled others (fold step (during_sleep poll_interval) s) k) \<le> 0"
      "\<forall>j < k. 0 < active_transcriptions
                    (polled others (fold step (during_sleep poll_interval) s) j)"
      by blast
    have "\<forall>j < Suc k. 0 < active_transcriptions (polled (during_sleep # others) s j)"
    proof (intro allI impI)
      fix j
      assume "j < Suc k"
      then show "0 < active_transcriptions (polled (during_sleep # others) s j)"
        using True k(4) by (cases j) (simp_all add: polled_0 polled_Suc)
    qed
    with k show ?thesis
      by (intro exI [of _ "Suc k"]) (simp add: polled_Suc)
  qed
qed

lemma cleanup_None:
  "cleanup others s = None \<longleftrightarrow> (\<forall>k \<le> length others. 0 < active_transcriptions (polled others s k))"
proof (induction others arbitrary: s)
  case Nil
  then show ?case
    by (simp add: polled_0)
next
  case (Cons during_sleep others)
  show ?case
  proof (cases "0 < active_transcriptions s")
    case False
    then have "\<not> (\<forall>k \<le> length (during_sleep # others).
                   0 < active_transcriptions (polled (during_sleep # others) s k))"
      by (auto intro!: exI [of _ 0] simp: polled_0)
    with False show ?thesis
      by simp
  next
    case True
    have "(\<forall>k \<le> length (during_sleep # others).
             0 < active_transcriptions (polled (during_sleep # others) s k))
          \<longleftrightarrow> (\<forall>k \<le> length others.
             0 < active_transcriptions
                   (polled others (fold step (during_sleep poll_interval) s) k))"
      (is "?L \<longleftrightarrow> ?R")
    proof
      assume l: ?L
      show ?R
      proof (intro allI impI)
        fix k
        assume "k \<le> length others"
        with l have "0 < active_transcriptions (polled (during_sleep # others) s (Suc k))"
          by simp
        then show "0 < active_transcriptions
                   (polled others (fold step (during_sleep poll_interval) s) k)"
          by (simp add: polled_Suc)
      qed
    next
      assume r: ?R
      show ?L
      proof (intro allI impI)
        fix k
        assume "k \<le> length (during_sleep # others)"
        with r True show "0 < active_transcriptions (polled (during_sleep # others) s k)"
          by (cases k) (simp_all add: polled_0 polled_Suc)
      qed
    qed
    with True Cons.IH [of "fold step (during_sleep poll_interval) s"] show ?thesis
      by simp
  qed
qed

lemma cleanup_interval:
  "cleanup (map (\<lambda>during_sleep d. during_sleep 1) others) s = cleanup others s"
  by (induction others arbitrary: s) (simp_all add: poll_interval_def)

lemma fold_step_transcriptions:
  "\<forall>a \<in> set acts. a = EnterTranscription \<or> a = LeaveTranscription \<Longrightarrow>
   model (fold step acts s) = model s \<and> model_size (fold step acts s) = model_size s
   \<and> executor (fold step acts s) = executor s"
  by (induction acts arbitrary: s) auto

lemma polled_transcriptions:
  "\<forall>during_sleep \<in> set others. \<forall>a \<in> set (during_sleep poll_interval).
      a = EnterTranscription \<or> a = LeaveTranscription \<Longrightarrow>
   model (polled others s k) = model s \<and> model_size (polled others s k) = model_size s
   \<and> executor (polled others s k) = executor s"
proof (induction others arbitrary: s k)
  case Nil
  then show ?case by (simp add: polled_def)
next
  case (Cons during_sleep others)
  show ?case
  proof (cases k)
    case 0
    then show ?thesis by (simp add: polled_0)
  next
    case (Suc n)
    from Cons.prems
    have "\<forall>a \<in> set (during_sleep poll_interval). a = EnterTranscription \<or> a = LeaveTranscription"
      by simp
    from fold_step_transcriptions [OF this, of s] Cons.IH [of "fold step (during_sleep poll_interval) s" n]
      Cons.prems Suc
    show ?thesis
      by (simp add: polled_Suc)
  qed
qed

text \<open>
  C7. \<open>cleanup\<close> returns only from a test of the counter that finds it not positive: the
  service it leaves is the one it found at that test, with the thread pool shut down and the
  model dropped, and at every earlier test the counter was positive. Until then the service
  is changed by the other coroutines only: when these do nothing but enter and leave
  transcriptions, the model and the pool are, at every test, those of the start. After the
  return no model is loaded and the model information says so. \<open>cleanup\<close> has not
  returned exactly when the counter was positive at every test so far, so it returns as soon
  as a test finds the counter at zero. Every sleep it asks for lasts one second.
\<close>

theorem cleanup_waits_for_counter:
  "(\<forall>s'. cleanup others s = Some s' \<longrightarrow>
       (\<exists>k \<le> length others.
           s' = release (polled others s k)
           \<and> active_transcriptions (polled others s k) \<le> 0
           \<and> (\<forall>j < k. 0 < active_transcriptions (polled others s j)))
       \<and> model s' = None \<and> is_shutdown (executor s')
       \<and> \<not> is_loaded (get_model_info w s'))
   \<and> ((\<forall>during_sleep \<in> set others. \<forall>a \<in> set (during_sleep poll_interval).
          a = EnterTranscription \<or> a = LeaveTranscription) \<longrightarrow>
       (\<forall>k. model (polled others s k) = model s \<and> executor (polled others s k) = executor s))
   \<and> (cleanup others s = None
        \<longleftrightarrow> (\<forall>k \<le> length others. 0 < active_transcriptions (polled others s k)))
   \<and> cleanup (map (\<lambda>during_sleep d. during_sleep 1) others) s = cleanup others s"
proof (intro conjI allI impI)
  fix s'
  assume ret: "cleanup others s = Some s'"
  from cleanup_Some [OF ret]
  show "\<exists>k \<le> length others.
           s' = release (polled others s k)
           \<and> active_transcriptions (polled others s k) \<le> 0
           \<and> (\<forall>j < k. 0 < active_transcriptions (polled others s j))" .
  from cleanup_Some [OF ret] obtain k where "s' = release (polled others s k)"
    by blast
  then show "model s' = None" and "is_shutdown (executor s')"
    and "\<not> is_loaded (get_model_info w s')"
    by (simp_all add: release_released get_model_info_def)
next
  fix k
  assume "\<forall>during_sleep \<in> set others. \<forall>a \<in> set (during_sleep poll_interval).
          a = EnterTranscription \<or> a = LeaveTranscription"
  from polled_transcriptions [OF this, of s k]
  show "model (polled others s k) = model s" and "executor (polled others s k) = executor s"
    by simp_all
next
  show "cleanup others s = None
        \<longleftrightarrow> (\<forall>k \<le> length others. 0 < active_transcriptions (polled others s k))"
    by (rule cleanup_None)
next
  show "cleanup (map (\<lambda>during_sleep d. during_sleep 1) others) s = cleanup others s"
    by (rule cleanup_interval)
qed

theorem cleanup_waits_for_counter_witness:
  "cleanup [\<lambda>d. [LeaveTranscription], \<lambda>d. [EnterTranscription, LeaveTranscription, LeaveTranscription]]
       (example_service\<lparr>active_transcriptions := 2\<rparr>)
     = Some (example_service\<lparr>model := None, model_size := None,
               executor := \<lparr>max_workers = 3, is_shutdown = True\<rparr>\<rparr>)
   \<and> \<not> is_loaded (get_model_info example_world
          (example_service\<lparr>model := None, model_size := None,
               executor := \<lparr>max_workers = 3, is_shutdown = True\<rparr>\<rparr>))
   \<and> model (polled [\<lambda>d. [LeaveTranscription],
                      \<lambda>d. [EnterTranscription, LeaveTranscription, LeaveTranscription]]
               (example_service\<lparr>active_transcriptions := 2\<rparr>) 1) = Some 4
   \<and> cleanup [\<lambda>d. [LeaveTranscription]] (example_service\<lparr>active_transcriptions := 2\<rparr>) = None
   \<and> active_transcriptions
        (polled [\<lambda>d. [LeaveTranscription]] (example_service\<lparr>active_transcriptions := 2\<rparr>) 1) = 1"
  using cleanup_waits_for_counter
    [of "[\<lambda>d. [LeaveTranscription], \<lambda>d. [EnterTranscription, LeaveTranscription, LeaveTranscription]]"
        "example_service\<lparr>active_transcriptions := 2\<rparr>" example_world]
    cleanup_waits_for_counter
    [of "[\<lambda>d. [LeaveTranscription]]" "example_service\<lparr>active_transcriptions := 2\<rparr>" example_world]
  by (simp add: example_service_eq release_def polled_def get_model_info_def)

section \<open>The handle and the size go together\<close>

lemma load_model_begin_model:
  "model (snd (load_model_begin w arg s)) = model s
   \<and> model_size (snd (load_model_begin w arg s)) = model_size s"
  by (simp add: load_model_begin_def Let_def split: sum.splits)

lemma step_paired:
  assumes "model s = None \<longleftrightarrow> model_size s = None"
  shows "model (step a s) = None \<longleftrightarrow> model_size (step a s) = None"
proof (cases a)
  case (BeginLoad w arg)
  with assms show ?thesis
    by (simp add: load_model_begin_model)
next
  case (FinishLoad w m)
  with assms show ?thesis
    by (simp add: load_model_finish_def split: sum.splits)
next
  case Release
  with assms show ?thesis
    by (simp add: release_def Let_def)
qed (use assms in simp_all)

lemma step_named:
  assumes "\<forall>m. model_size s = Some m \<longrightarrow> loadable m" and "admissible loadable a"
  shows "\<forall>m. model_size (step a s) = Some m \<longrightarrow> loadable m"
proof (cases a)
  case (BeginLoad w arg)
  with assms show ?thesis
    by (simp add: load_model_begin_model)
next
  case (FinishLoad w m)
  with assms show ?thesis
    by (auto simp: load_model_finish_def split: sum.splits)
next
  case Release
  with assms show ?thesis
    by (simp add: release_def Let_def)
qed (use assms in simp_all)

lemma reachable_paired:
  "reachable loadable s \<Longrightarrow> (model s = None \<longleftrightarrow> model_size s = None)"
proof (induction rule: reachable.induct)
  case (reachable_init w)
  show ?case by (simp add: WhisperService_init_def)
next
  case (reachable_step s a)
  then show ?case by (simp add: step_paired)
qed

lemma reachable_named:
  "reachable loadable s \<Longrightarrow> \<forall>m. model_size s = Some m \<longrightarrow> loadable m"
proof (induction rule: reachable.induct)
  case (reachable_init w)
  show ?case by (simp add: WhisperService_init_def)
next
  case (reachable_step s a)
  show ?case by (rule step_named [OF reachable_step.IH reachable_step.hyps(2)])
qed

text \<open>The methods of the service lead from reachable states to reachable states.\<close>

lemma load_model_steps:
  "snd (load_model w arg s) = step (BeginLoad w arg) s
   \<or> snd (load_model w arg s)
       = step (FinishLoad w (requested_size w arg)) (step (BeginLoad w arg) s)"
  by (cases "load_model_begin w arg s") (auto simp: load_model_def split: option.splits)

lemma load_model_reachable:
  assumes "reachable loadable s"
    and "\<forall>h. load_model_sync w (requested_size w arg) = Inr h \<longrightarrow> loadable (requested_size w arg)"
  shows "reachable loadable (snd (load_model w arg s))"
proof -
  have started: "reachable loadable (step (BeginLoad w arg) s)"
    using assms(1) by (rule reachable_step) simp
  have "admissible loadable (FinishLoad w (requested_size w arg))"
    using assms(2) by (simp split: sum.splits)
  with started
  have "reachable loadable (step (FinishLoad w (requested_size w arg)) (step (BeginLoad w arg) s))"
    by (rule reachable_step)
  with started load_model_steps [of w arg s] show ?thesis
    by auto
qed

lemma transcribe_audio_reachable:
  assumes "reachable loadable s"
    and "\<forall>h. load_model_sync w (requested_size w requested) = Inr h
             \<longrightarrow> loadable (requested_size w requested)"
  shows "reachable loadable (snd (transcribe_audio w fp requested lang temp task s))"
proof (cases "model s")
  case None
  with assms(1) show ?thesis
    by (simp add: transcribe_audio_def)
next
  case (Some h)
  have resolved: "reachable loadable (snd (resolve_model w requested s))"
    using assms load_model_reachable [OF assms]
    by (auto simp: resolve_model_def split: prod.splits sum.splits)
  obtain e s1 where r: "resolve_model w requested s = (e, s1)"
    by (cases "resolve_model w requested s")
  with resolved have s1: "reachable loadable s1"
    by simp
  show ?thesis
  proof (cases e)
    case (Some err)
    with \<open>model s = Some h\<close> r s1 show ?thesis
      by (simp add: transcribe_audio_def)
  next
    case None
    have "reachable loadable (step LeaveTranscription (step EnterTranscription s1))"
      using s1 by (intro reachable_step) simp_all
    with \<open>model s = Some h\<close> r None show ?thesis
      by (simp add: transcribe_audio_def Let_def)
  qed
qed

lemma fold_step_reachable:
  "reachable loadable s \<Longrightarrow> \<forall>a \<in> set acts. admissible loadable a \<Longrightarrow>
   reachable loadable (fold step acts s)"
  by (induction acts arbitrary: s) (auto intro: reachable_step)

lemma cleanup_reachable:
  assumes "reachable loadable s"
    and "\<forall>during_sleep \<in> set others. \<forall>a \<in> set (during_sleep poll_interval). admissible loadable a"
    and "cleanup others s = Some s'"
  shows "reachable loadable s'"
  using assms
proof (induction others arbitrary: s)
  case Nil
  then have "s' = step Release s"
    by (simp split: if_splits)
  moreover have "reachable loadable (step Release s)"
    using Nil.prems(1) by (rule reachable_step) simp
  ultimately show ?case
    by simp
next
  case (Cons during_sleep others)
  show ?case
  proof (cases "0 < active_transcriptions s")
    case False
    with Cons.prems have "s' = step Release s"
      by simp
    moreover have "reachable loadable (step Release s)"
      using Cons.prems(1) by (rule reachable_step) simp
    ultimately show ?thesis
      by simp
  next
    case True
    from Cons.prems have "reachable loadable (fold step (during_sleep poll_interval) s)"
      by (intro fold_step_reachable) simp_all
    moreover from True Cons.prems
    have "cleanup others (fold step (during_sleep poll_interval) s) = Some s'"
      by simp
    ultimately show ?thesis
      using Cons.IH Cons.prems(2) by simp
  qed
qed

text \<open>
  C9. In every reachable state, whatever the interleaving of the actions of
  \<open>load_model\<close>, \<open>transcribe_audio\<close> and \<open>cleanup\<close> that led to it, the model handle
  is \<open>None\<close> exactly when the recorded size is. So the model information reports a loaded
  model exactly when a size is recorded; and, the loader yielding no model for the empty name
  and for the name \<open>none\<close>, it then reports that very size, and it reports the placeholder
  \<open>none\<close> exactly when it reports that no model is loaded.
\<close>

theorem handle_iff_size:
  assumes "reachable loadable s"
  shows "(model s = None \<longleftrightarrow> model_size s = None)
    \<and> (is_loaded (get_model_info w s) \<longleftrightarrow> model_size s \<noteq> None)
    \<and> (\<not> loadable [] \<and> \<not> loadable ''none'' \<longrightarrow>
         (is_loaded (get_model_info w s) \<longrightarrow>
            model_size s = Some (info_model_size (get_model_info w s)))
         \<and> (info_model_size (get_model_info w s) = ''none''
              \<longleftrightarrow> \<not> is_loaded (get_model_info w s)))"
proof (intro conjI impI)
  from assms have paired: "model s = None \<longleftrightarrow> model_size s = None"
    by (rule reachable_paired)
  then show "model s = None \<longleftrightarrow> model_size s = None" .
  from paired show "is_loaded (get_model_info w s) \<longleftrightarrow> model_size s \<noteq> None"
    by (simp add: get_model_info_def)
  assume names: "\<not> loadable [] \<and> \<not> loadable ''none''"
  from assms have named: "\<forall>m. model_size s = Some m \<longrightarrow> loadable m"
    by (rule reachable_named)
  show "model_size s = Some (info_model_size (get_model_info w s))"
    if "is_loaded (get_model_info w s)"
  proof -
    from that paired obtain m where m: "model_size s = Some m"
      by (auto simp: get_model_info_def)
    with named names have "m \<noteq> []"
      by auto
    with m show ?thesis
      by (simp add: get_model_info_def truthy_str_def)
  qed
  show "info_model_size (get_model_info w s) = ''none'' \<longleftrightarrow> \<not> is_loaded (get_model_info w s)"
  proof (cases "model_size s")
    case None
    with paired show ?thesis
      by (simp add: get_model_info_def truthy_str_def)
  next
    case (Some m)
    with named names have "m \<noteq> []" and "m \<noteq> ''none''"
      by auto
    with Some paired show ?thesis
      by (simp add: get_model_info_def truthy_str_def)
  qed
qed

theorem handle_iff_size_witness:
  "reachable (\<lambda>m. m \<in> set (available_model_sizes default_settings)) example_service
   \<and> [] \<notin> set (available_model_sizes default_settings)
   \<and> ''none'' \<notin> set (available_model_sizes default_settings)
   \<and> model example_service = Some 4 \<and> model_size example_service = Some ''base''
   \<and> is_loaded (get_model_info example_world example_service)
   \<and> info_model_size (get_model_info example_world example_service) = ''base''
   \<and> reachable (\<lambda>m. m \<in> set (available_model_sizes default_settings))
        (WhisperService_init example_world)
   \<and> \<not> is_loaded (get_model_info example_world (WhisperService_init example_world))
   \<and> info_model_size (get_model_info example_world (WhisperService_init example_world))
        = ''none''"
proof -
  let ?known = "\<lambda>m. m \<in> set (available_model_sizes default_settings)"
  have start: "reachable ?known (WhisperService_init example_world)"
    by (rule reachable_init)
  have "reachable ?known (snd (load_model example_world None (WhisperService_init example_world)))"
    using start
    by (rule load_model_reachable) (simp add: requested_size_def example_world_def default_settings_def)
  then have loaded: "reachable ?known example_service"
    by (simp add: example_service_def)
  show ?thesis
    using handle_iff_size [OF loaded, of example_world]
      handle_iff_size [OF start, of example_world] start loaded
    by (simp add: default_settings_def) (simp add: example_service_eq WhisperService_init_def)
qed

end
